theory Spec2Isabelle
  imports Main "HOL-Library.Word"
begin

unbundle bit_operations_syntax

chapter \<open>The program\<close>

section \<open>CharacterColor.h\<close>

text \<open>
  C++ \<open>int\<close> values are modelled as \<open>int\<close>: none of the arithmetic below leaves the
  32-bit range for the values a terminal handles. The bytes of a \<open>CharacterColor\<close>
  are \<open>quint8\<close>, modelled as \<open>8 word\<close>, so that \<open>u -= 8\<close> wraps as in the source.
\<close>

datatype QColor = QColor int int int | QColorInvalid

datatype FontWeight = Bold | Normal | UseCurrentFormat

record ColorEntry =
  color :: QColor
  fontWeight :: FontWeight

text \<open>
  A palette is passed as \<open>const ColorEntry*\<close>; it is modelled as the function from
  offsets to entries.
\<close>

type_synonym palette = "nat \<Rightarrow> ColorEntry"

definition BASE_COLORS :: nat where
  "BASE_COLORS = 2 + 8"

definition INTENSITIES :: nat where
  "INTENSITIES = 2"

definition TABLE_COLORS :: nat where
  "TABLE_COLORS = INTENSITIES * BASE_COLORS"

definition DEFAULT_FORE_COLOR :: int where
  "DEFAULT_FORE_COLOR = 0"

definition DEFAULT_BACK_COLOR :: int where
  "DEFAULT_BACK_COLOR = 1"

definition COLOR_SPACE_UNDEFINED :: "8 word" where
  "COLOR_SPACE_UNDEFINED = 0"

definition COLOR_SPACE_DEFAULT :: "8 word" where
  "COLOR_SPACE_DEFAULT = 1"

definition COLOR_SPACE_SYSTEM :: "8 word" where
  "COLOR_SPACE_SYSTEM = 2"

definition COLOR_SPACE_256 :: "8 word" where
  "COLOR_SPACE_256 = 3"

definition COLOR_SPACE_RGB :: "8 word" where
  "COLOR_SPACE_RGB = 4"

record CharacterColor =
  colorSpace :: "8 word"
  m_u :: "8 word"
  m_v :: "8 word"
  m_w :: "8 word"

text \<open>The default constructor \<open>CharacterColor()\<close>.\<close>

definition CharacterColor0 :: CharacterColor where
  "CharacterColor0 =
     \<lparr>colorSpace = COLOR_SPACE_UNDEFINED, m_u = 0, m_v = 0, m_w = 0\<rparr>"

text \<open>
  The constructor \<open>CharacterColor(quint8 colorSpace, int co)\<close>. Storing an \<open>int\<close> in
  a \<open>quint8\<close> keeps its low eight bits (\<open>word_of_int\<close>); \<open>>>\<close> on an \<open>int\<close> is
  \<open>drop_bit\<close>.
\<close>

definition CharacterColor2 :: "8 word \<Rightarrow> int \<Rightarrow> CharacterColor" where
  "CharacterColor2 space co =
     (if space = COLOR_SPACE_DEFAULT then
        \<lparr>colorSpace = space, m_u = word_of_int (co AND 1), m_v = 0, m_w = 0\<rparr>
      else if space = COLOR_SPACE_SYSTEM then
        \<lparr>colorSpace = space, m_u = word_of_int (co AND 7),
         m_v = word_of_int (drop_bit 3 co AND 1), m_w = 0\<rparr>
      else if space = COLOR_SPACE_256 then
        \<lparr>colorSpace = space, m_u = word_of_int (co AND 255), m_v = 0, m_w = 0\<rparr>
      else if space = COLOR_SPACE_RGB then
        \<lparr>colorSpace = space, m_u = word_of_int (drop_bit 16 co),
         m_v = word_of_int (drop_bit 8 co), m_w = word_of_int co\<rparr>
      else
        \<lparr>colorSpace = COLOR_SPACE_UNDEFINED, m_u = 0, m_v = 0, m_w = 0\<rparr>)"

definition isValid :: "CharacterColor \<Rightarrow> bool" where
  "isValid c = (colorSpace c \<noteq> COLOR_SPACE_UNDEFINED)"

definition setIntensive :: "CharacterColor \<Rightarrow> CharacterColor" where
  "setIntensive c =
     (if colorSpace c = COLOR_SPACE_SYSTEM \<or> colorSpace c = COLOR_SPACE_DEFAULT
      then c\<lparr>m_v := 1\<rparr> else c)"

text \<open>
  \<open>color256\<close>: the parameter \<open>u\<close> is a \<open>quint8\<close> that the function updates in place
  (\<open>u -= 8\<close>, \<open>u -= 216\<close>); in the arithmetic of the colour cube and of the gray ramp
  it is promoted to \<open>int\<close> (\<open>uint\<close>).
\<close>

definition color256 :: "8 word \<Rightarrow> palette \<Rightarrow> QColor" where
  "color256 u base =
     (if u < 8 then color (base (unat u + 2))
      else let u1 = u - 8 in
        if u1 < 8 then color (base (unat u1 + 2 + BASE_COLORS))
        else let u2 = u1 - 8 in
          if u2 < 216 then
            QColor (if (uint u2 div 36) mod 6 \<noteq> 0 then 40 * ((uint u2 div 36) mod 6) + 55 else 0)
                   (if (uint u2 div 6) mod 6 \<noteq> 0 then 40 * ((uint u2 div 6) mod 6) + 55 else 0)
                   (if (uint u2 div 1) mod 6 \<noteq> 0 then 40 * ((uint u2 div 1) mod 6) + 55 else 0)
          else let u3 = u2 - 216; gray = uint u3 * 10 + 8 in
            QColor gray gray gray)"

text \<open>\<open>CharacterColor::color(const ColorEntry* base)\<close>.\<close>

definition CharacterColor_color :: "CharacterColor \<Rightarrow> palette \<Rightarrow> QColor" where
  "CharacterColor_color c base =
     (if colorSpace c = COLOR_SPACE_DEFAULT then
        color (base (unat (m_u c) + 0 + (if m_v c \<noteq> 0 then BASE_COLORS else 0)))
      else if colorSpace c = COLOR_SPACE_SYSTEM then
        color (base (unat (m_u c) + 2 + (if m_v c \<noteq> 0 then BASE_COLORS else 0)))
      else if colorSpace c = COLOR_SPACE_256 then color256 (m_u c) base
      else if colorSpace c = COLOR_SPACE_RGB then
        QColor (uint (m_u c)) (uint (m_v c)) (uint (m_w c))
      else QColorInvalid)"

text \<open>
  The channel value that the colour cube gives to the base-6 digit \<open>d\<close>.
\<close>

definition cube_channel :: "int \<Rightarrow> int" where
  "cube_channel d = (if d = 0 then 0 else 40 * d + 55)"

section \<open>Declarations that are not among the sources\<close>

text \<open>
  Modelled from the spec: the cell type \<open>Character\<close> (\<open>Character.h\<close> is not among the
  sources). The spec's data model gives a cell a 32-bit code point \<open>character\<close>, a
  \<open>foregroundColor\<close>, a \<open>backgroundColor\<close>, a 16-bit \<open>rendition\<close> bitmask and the
  flag \<open>isRealCharacter\<close>; equality is field-wise, which is the equality of the record.
\<close>

record Character =
  character :: "32 word"
  foregroundColor :: CharacterColor
  backgroundColor :: CharacterColor
  rendition :: "16 word"
  isRealCharacter :: bool

text \<open>
  The constants and helpers that \<open>Character.h\<close> and \<open>CharacterColor.h\<close> declare and the
  sources use without defining them are parameters of the model: the rendition bits, the
  default rendition, the \<open>wrapped\<close> line property, the value of the default constructor
  \<open>Character()\<close> (what \<open>QVector::resize\<close> pads a line with), \<open>CharacterColor::setFaint\<close>
  and \<open>Character::isSpace\<close>.
\<close>

record decls =
  RE_BOLD :: "16 word"
  RE_UNDERLINE :: "16 word"
  RE_REVERSE :: "16 word"
  RE_FAINT :: "16 word"
  RE_EXTENDED_CHAR :: "16 word"
  DEFAULT_RENDITION :: "16 word"
  LINE_WRAPPED :: "8 word"
  Character0 :: Character
  setFaint :: "CharacterColor \<Rightarrow> CharacterColor"
  isSpace :: "Character \<Rightarrow> bool"

section \<open>The history store\<close>

text \<open>
  Modelled from the spec: the history store (\<open>HistoryScroll\<close> and its three
  implementations are not among the sources). The spec: \<^emph>\<open>None\<close> stores nothing and has
  no lines; \<^emph>\<open>File-backed, unlimited\<close> appends; \<^emph>\<open>Compact, bounded\<close> is a ring buffer
  with a fixed maximum line count, and if it is at capacity an append drops the oldest
  line. A stored line is its cells and its wrapped flag. \<open>Screen\<close> appends a line with
  the pair of calls \<open>addCellsVector(cells); addLine(wrapped)\<close>, which \<open>history_append\<close>
  stands for.
\<close>

type_synonym histLine = "Character list \<times> bool"

datatype HistoryScroll =
  HistoryScrollNone
  | HistoryScrollFile "histLine list"
  | CompactHistoryScroll nat "histLine list"

fun histLines :: "HistoryScroll \<Rightarrow> histLine list" where
  "histLines HistoryScrollNone = []"
| "histLines (HistoryScrollFile ls) = ls"
| "histLines (CompactHistoryScroll m ls) = ls"

definition getLines :: "HistoryScroll \<Rightarrow> int" where
  "getLines h = int (length (histLines h))"

fun hasScroll :: "HistoryScroll \<Rightarrow> bool" where
  "hasScroll HistoryScrollNone = False"
| "hasScroll (HistoryScrollFile ls) = True"
| "hasScroll (CompactHistoryScroll m ls) = True"

fun history_append :: "HistoryScroll \<Rightarrow> Character list \<Rightarrow> bool \<Rightarrow> HistoryScroll" where
  "history_append HistoryScrollNone cells wrapped = HistoryScrollNone"
| "history_append (HistoryScrollFile ls) cells wrapped = HistoryScrollFile (ls @ [(cells, wrapped)])"
| "history_append (CompactHistoryScroll m ls) cells wrapped =
     (if m \<le> length ls then CompactHistoryScroll m (tl (ls @ [(cells, wrapped)]))
      else CompactHistoryScroll m (ls @ [(cells, wrapped)]))"

text \<open>A bounded store is at capacity when it holds its maximum line count.\<close>

fun atCapacity :: "HistoryScroll \<Rightarrow> bool" where
  "atCapacity (CompactHistoryScroll m ls) = (m \<le> length ls)"
| "atCapacity h = False"

section \<open>Screen.cpp\<close>

datatype QRect = QRect int int int int | QRectNull

record SavedState =
  cursorColumn :: int
  cursorLine :: int
  rendition_saved :: "16 word"
  foreground_saved :: CharacterColor
  background_saved :: CharacterColor

text \<open>
  The fields of \<open>Screen\<close> that the functions below read or write. \<open>screenLines\<close> is the
  \<open>QVector\<close> of lines (each a \<open>QVector\<close> of cells), \<open>lineProperties\<close> the parallel
  array. The URL extractor is a collaborator outside the sources; the calls of
  \<open>historyLinesRemoved\<close> that \<open>Screen\<close> makes on it are recorded in \<open>urlLinesRemoved\<close>.
\<close>

record Screen =
  lines :: int
  columns :: int
  screenLines :: "Character list list"
  lineProperties :: "8 word list"
  scrolledLines :: int
  lastScrolledRegion :: QRect
  droppedLines :: int
  history :: HistoryScroll
  cuX :: int
  cuY :: int
  currentForeground :: CharacterColor
  currentBackground :: CharacterColor
  currentRendition :: "16 word"
  topMargin :: int
  bottomMargin :: int
  selBegin :: int
  selTopLeft :: int
  selBottomRight :: int
  effectiveForeground :: CharacterColor
  effectiveBackground :: CharacterColor
  effectiveRendition :: "16 word"
  lastPos :: int
  savedState :: SavedState
  urlLinesRemoved :: "int list"

text \<open>The macro \<open>loc(X,Y) ((Y)*_columns+(X))\<close>.\<close>

definition loc :: "Screen \<Rightarrow> int \<Rightarrow> int \<Rightarrow> int" where
  "loc s X Y = Y * columns s + X"

text \<open>
  C++ integer division truncates towards zero and \<open>%\<close> is its remainder; HOL's \<open>div\<close>
  rounds down.
\<close>

definition cdiv :: "int \<Rightarrow> int \<Rightarrow> int" where
  "cdiv a b = sgn a * sgn b * (\<bar>a\<bar> div \<bar>b\<bar>)"

definition cmod :: "int \<Rightarrow> int \<Rightarrow> int" where
  "cmod a b = a - b * cdiv a b"

definition DefaultChar :: "decls \<Rightarrow> Character" where
  "DefaultChar D =
     \<lparr>character = 32,
      foregroundColor = CharacterColor2 COLOR_SPACE_DEFAULT DEFAULT_FORE_COLOR,
      backgroundColor = CharacterColor2 COLOR_SPACE_DEFAULT DEFAULT_BACK_COLOR,
      rendition = DEFAULT_RENDITION D,
      isRealCharacter = False\<rparr>"

definition saveCursor :: "Screen \<Rightarrow> Screen" where
  "saveCursor s =
     s\<lparr>savedState :=
         \<lparr>cursorColumn = cuX s, cursorLine = cuY s, rendition_saved = currentRendition s,
          foreground_saved = currentForeground s, background_saved = currentBackground s\<rparr>\<rparr>"

definition updateEffectiveRendition :: "decls \<Rightarrow> Screen \<Rightarrow> Screen" where
  "updateEffectiveRendition D s =
     (let s1 = s\<lparr>effectiveRendition := currentRendition s\<rparr>;
          s2 = (if currentRendition s1 AND RE_REVERSE D \<noteq> 0 then
                  s1\<lparr>effectiveForeground := currentBackground s1,
                     effectiveBackground := currentForeground s1\<rparr>
                else
                  s1\<lparr>effectiveForeground := currentForeground s1,
                     effectiveBackground := currentBackground s1\<rparr>)
      in if currentRendition s2 AND RE_BOLD D \<noteq> 0 then
           (if currentRendition s2 AND RE_FAINT D = 0 then
              s2\<lparr>effectiveForeground := setIntensive (effectiveForeground s2)\<rparr>
            else s2)
         else
           (if currentRendition s2 AND RE_FAINT D \<noteq> 0 then
              s2\<lparr>effectiveForeground := setFaint D (effectiveForeground s2)\<rparr>
            else s2))"

definition restoreCursor :: "decls \<Rightarrow> Screen \<Rightarrow> Screen" where
  "restoreCursor D s =
     updateEffectiveRendition D
       (s\<lparr>cuX := min (cursorColumn (savedState s)) (columns s - 1),
          cuY := min (cursorLine (savedState s)) (lines s - 1),
          currentRendition := rendition_saved (savedState s),
          currentForeground := foreground_saved (savedState s),
          currentBackground := background_saved (savedState s)\<rparr>)"

definition setRendition :: "decls \<Rightarrow> 16 word \<Rightarrow> Screen \<Rightarrow> Screen" where
  "setRendition D r s =
     updateEffectiveRendition D (s\<lparr>currentRendition := currentRendition s OR r\<rparr>)"

definition resetRendition :: "decls \<Rightarrow> 16 word \<Rightarrow> Screen \<Rightarrow> Screen" where
  "resetRendition D r s =
     updateEffectiveRendition D (s\<lparr>currentRendition := currentRendition s AND NOT r\<rparr>)"

text \<open>
  \<open>setForeColor\<close> and \<open>setBackColor\<close> call themselves with the default colour when the
  colour built from their arguments is not valid; \<open>quint8(space)\<close> keeps the low eight
  bits of \<open>space\<close>.
\<close>

function setForeColor :: "decls \<Rightarrow> int \<Rightarrow> int \<Rightarrow> Screen \<Rightarrow> Screen" where
  "setForeColor D space color' s =
     (let s1 = s\<lparr>currentForeground := CharacterColor2 (word_of_int space) color'\<rparr>
      in if isValid (currentForeground s1) then updateEffectiveRendition D s1
         else setForeColor D (uint COLOR_SPACE_DEFAULT) DEFAULT_FORE_COLOR s1)"
  by pat_completeness auto
termination
  by (relation "measure (\<lambda>(D, space, color', s).
        if isValid (CharacterColor2 (word_of_int space) color') then 0 else 1)")
    (auto simp: isValid_def CharacterColor2_def COLOR_SPACE_DEFAULT_def
      COLOR_SPACE_UNDEFINED_def)

declare setForeColor.simps [simp del]

function setBackColor :: "decls \<Rightarrow> int \<Rightarrow> int \<Rightarrow> Screen \<Rightarrow> Screen" where
  "setBackColor D space color' s =
     (let s1 = s\<lparr>currentBackground := CharacterColor2 (word_of_int space) color'\<rparr>
      in if isValid (currentBackground s1) then updateEffectiveRendition D s1
         else setBackColor D (uint COLOR_SPACE_DEFAULT) DEFAULT_BACK_COLOR s1)"
  by pat_completeness auto
termination
  by (relation "measure (\<lambda>(D, space, color', s).
        if isValid (CharacterColor2 (word_of_int space) color') then 0 else 1)")
    (auto simp: isValid_def CharacterColor2_def COLOR_SPACE_DEFAULT_def
      COLOR_SPACE_UNDEFINED_def)

declare setBackColor.simps [simp del]

definition setDefaultRendition :: "decls \<Rightarrow> Screen \<Rightarrow> Screen" where
  "setDefaultRendition D s =
     (let s1 = setForeColor D (uint COLOR_SPACE_DEFAULT) DEFAULT_FORE_COLOR s;
          s2 = setBackColor D (uint COLOR_SPACE_DEFAULT) DEFAULT_BACK_COLOR s1
      in updateEffectiveRendition D (s2\<lparr>currentRendition := DEFAULT_RENDITION D\<rparr>))"

definition clearSelection :: "Screen \<Rightarrow> Screen" where
  "clearSelection s = s\<lparr>selBottomRight := -1, selTopLeft := -1, selBegin := -1\<rparr>"

section \<open>Screen.cpp: scrolling\<close>

text \<open>
  Reading or writing a \<open>QVector\<close> outside its bounds, resizing or filling a line from a
  negative column, dividing by zero and a failed \<open>Q_ASSERT\<close> are not defined behaviour of
  the program: the functions below return \<open>None\<close> there, and \<open>Some\<close> of the new state
  otherwise.

  \<open>QVector::resize\<close> truncates a line or pads it with default-constructed cells.
\<close>

definition resize :: "decls \<Rightarrow> int \<Rightarrow> Character list \<Rightarrow> Character list" where
  "resize D n line = take (nat n) line @ replicate (nat n - length line) (Character0 D)"

text \<open>\<open>std::fill(line.begin() + startCol, line.begin() + (endCol + 1), clearCh)\<close>.\<close>

definition fill :: "int \<Rightarrow> int \<Rightarrow> Character \<Rightarrow> Character list \<Rightarrow> Character list" where
  "fill startCol endCol1 clearCh line =
     take (nat startCol) line @ replicate (nat endCol1 - nat startCol) clearCh
       @ drop (nat endCol1) line"

text \<open>The body of the loop of \<open>clearImage\<close> for the line \<open>y\<close>.\<close>

definition clearLine ::
  "decls \<Rightarrow> int \<Rightarrow> int \<Rightarrow> int \<Rightarrow> int \<Rightarrow> Character \<Rightarrow> bool \<Rightarrow> int \<Rightarrow> Screen \<Rightarrow> Screen" where
  "clearLine D loca loce topLine bottomLine clearCh isDefaultCh y s =
     (let s1 = s\<lparr>lineProperties := (lineProperties s)[nat y := 0]\<rparr>;
          endCol = (if y = bottomLine then cmod loce (columns s1) else columns s1 - 1);
          startCol = (if y = topLine then cmod loca (columns s1) else 0);
          line = screenLines s1 ! nat y;
          line' =
            (if isDefaultCh \<and> endCol = columns s1 - 1 then resize D startCol line
             else
               let l1 = (if int (length line) < endCol + 1 then resize D (endCol + 1) line
                         else line)
               in if startCol \<le> endCol then fill startCol (endCol + 1) clearCh l1 else l1)
      in s1\<lparr>screenLines := (screenLines s1)[nat y := line']\<rparr>)"

definition clearImage :: "decls \<Rightarrow> int \<Rightarrow> int \<Rightarrow> 32 word \<Rightarrow> Screen \<Rightarrow> Screen option" where
  "clearImage D loca loce c s =
     (if columns s = 0 then None
      else
        let scr_TL = loc s 0 (getLines (history s));
            s1 = (if selBottomRight s > loca + scr_TL \<and> selTopLeft s < loce + scr_TL
                  then clearSelection s else s);
            topLine = cdiv loca (columns s1);
            bottomLine = cdiv loce (columns s1);
            clearCh =
              \<lparr>character = c, foregroundColor = currentForeground s1,
               backgroundColor = currentBackground s1, rendition = DEFAULT_RENDITION D,
               isRealCharacter = False\<rparr>;
            isDefaultCh = (clearCh = DefaultChar D)
        in if topLine \<le> bottomLine \<and>
              (topLine < 0 \<or> int (length (screenLines s1)) \<le> bottomLine \<or>
               int (length (lineProperties s1)) \<le> bottomLine \<or>
               cmod loca (columns s1) < 0)
           then None
           else Some (foldl (\<lambda>t y. clearLine D loca loce topLine bottomLine clearCh isDefaultCh y t)
                        s1 [topLine..bottomLine]))"

text \<open>
  The two loops of \<open>moveImage\<close>. The forward loop copies line \<open>srcY + i\<close> to line
  \<open>destY + i\<close> for \<open>i = 0, \<dots>, lines\<close>; the backward loop runs \<open>i = lines, \<dots>, 0\<close> and
  moves the line with \<open>std::move\<close>, which leaves the source line empty (and a line moved
  onto itself unchanged). The line properties are copied in both.
\<close>

primrec copy_rows :: "nat list \<Rightarrow> nat \<Rightarrow> nat \<Rightarrow> 'a list \<Rightarrow> 'a list" where
  "copy_rows [] destY srcY xs = xs"
| "copy_rows (i # is) destY srcY xs =
     copy_rows is destY srcY (xs[destY + i := xs ! (srcY + i)])"

primrec move_rows :: "nat list \<Rightarrow> nat \<Rightarrow> nat \<Rightarrow> 'a list list \<Rightarrow> 'a list list" where
  "move_rows [] destY srcY xs = xs"
| "move_rows (i # is) destY srcY xs =
     move_rows is destY srcY
       (if destY + i = srcY + i then xs
        else (xs[destY + i := xs ! (srcY + i)])[srcY + i := []])"

text \<open>
  \<open>moveImage\<close> in its three blocks: the loops over the lines, the update of \<open>_lastPos\<close>
  and the adjustment of the selection (\<open>lines'\<close> is the local \<open>lines\<close> of the source).
  In the selection blocks of \<open>moveImage\<close> and \<open>addHistLine\<close> the successive assignments
  to \<open>_selTopLeft\<close> and \<open>_selBottomRight\<close> are the successive values \<open>tl1\<close>, \<open>br1\<close>,
  \<open>br2\<close> (and \<open>tl3\<close>, \<open>br4\<close>).
\<close>

definition moveLines :: "int \<Rightarrow> int \<Rightarrow> int \<Rightarrow> int \<Rightarrow> int \<Rightarrow> Screen \<Rightarrow> Screen" where
  "moveLines dest sourceBegin lines' destY srcY s =
     (let is = [0..<nat lines' + 1]
      in if dest < sourceBegin then
           s\<lparr>screenLines := copy_rows is (nat destY) (nat srcY) (screenLines s),
             lineProperties := copy_rows is (nat destY) (nat srcY) (lineProperties s)\<rparr>
         else
           s\<lparr>screenLines := move_rows (rev is) (nat destY) (nat srcY) (screenLines s),
             lineProperties := copy_rows (rev is) (nat destY) (nat srcY) (lineProperties s)\<rparr>)"

definition moveLastPos :: "int \<Rightarrow> int \<Rightarrow> int \<Rightarrow> Screen \<Rightarrow> Screen" where
  "moveLastPos dest sourceBegin lines' s =
     (if lastPos s \<noteq> -1 then
        let diff = dest - sourceBegin;
            p = lastPos s + diff
        in s\<lparr>lastPos := (if p < 0 \<or> p \<ge> lines' * columns s then -1 else p)\<rparr>
      else s)"

definition moveSelection :: "int \<Rightarrow> int \<Rightarrow> int \<Rightarrow> Screen \<Rightarrow> Screen" where
  "moveSelection dest sourceBegin sourceEnd s =
     (if selBegin s \<noteq> -1 then
        let beginIsTL = (selBegin s = selTopLeft s);
            diff = dest - sourceBegin;
            scr_TL = loc s 0 (getLines (history s));
            srca = sourceBegin + scr_TL;
            srce = sourceEnd + scr_TL;
            desta = srca + diff;
            deste = srce + diff;
            tl1 = (if selTopLeft s \<ge> srca \<and> selTopLeft s \<le> srce then selTopLeft s + diff
                   else selTopLeft s);
            br1 = (if selTopLeft s \<ge> srca \<and> selTopLeft s \<le> srce then selBottomRight s
                   else if selTopLeft s \<ge> desta \<and> selTopLeft s \<le> deste then -1
                   else selBottomRight s);
            br2 = (if br1 \<ge> srca \<and> br1 \<le> srce then br1 + diff
                   else if br1 \<ge> desta \<and> br1 \<le> deste then -1
                   else br1);
            s5 = (if br2 < 0 then clearSelection (s\<lparr>selTopLeft := tl1, selBottomRight := br2\<rparr>)
                  else s\<lparr>selTopLeft := (if tl1 < 0 then 0 else tl1), selBottomRight := br2\<rparr>)
        in s5\<lparr>selBegin := (if beginIsTL then selTopLeft s5 else selBottomRight s5)\<rparr>
      else s)"

definition moveImage :: "int \<Rightarrow> int \<Rightarrow> int \<Rightarrow> Screen \<Rightarrow> Screen option" where
  "moveImage dest sourceBegin sourceEnd s =
     (if columns s = 0 \<or> \<not> sourceBegin \<le> sourceEnd then None
      else
        let lines' = cdiv (sourceEnd - sourceBegin) (columns s);
            destY = cdiv dest (columns s);
            srcY = cdiv sourceBegin (columns s)
        in if destY < 0 \<or> srcY < 0 \<or>
              int (length (screenLines s)) \<le> destY + lines' \<or>
              int (length (screenLines s)) \<le> srcY + lines' \<or>
              int (length (lineProperties s)) \<le> destY + lines' \<or>
              int (length (lineProperties s)) \<le> srcY + lines'
           then None
           else Some (moveSelection dest sourceBegin sourceEnd
                        (moveLastPos dest sourceBegin lines'
                           (moveLines dest sourceBegin lines' destY srcY s))))"

text \<open>\<open>Screen::scrollUp(int from, int n)\<close> and \<open>Screen::scrollDown(int from, int n)\<close>.\<close>

definition scrollUp :: "decls \<Rightarrow> int \<Rightarrow> int \<Rightarrow> Screen \<Rightarrow> Screen option" where
  "scrollUp D from n s =
     (if n \<le> 0 then Some s
      else if from > bottomMargin s then Some s
      else
        let n1 = (if from + n > bottomMargin s then bottomMargin s + 1 - from else n);
            s1 = s\<lparr>scrolledLines := scrolledLines s - n1,
                   lastScrolledRegion :=
                     QRect 0 (topMargin s) (columns s - 1) (bottomMargin s - topMargin s)\<rparr>
        in case moveImage (loc s1 0 from) (loc s1 0 (from + n1))
                  (loc s1 (columns s1) (bottomMargin s1)) s1 of
             None \<Rightarrow> None
           | Some s2 \<Rightarrow>
               clearImage D (loc s2 0 (bottomMargin s2 - n1 + 1))
                 (loc s2 (columns s2 - 1) (bottomMargin s2)) 32 s2)"

definition scrollDown :: "decls \<Rightarrow> int \<Rightarrow> int \<Rightarrow> Screen \<Rightarrow> Screen option" where
  "scrollDown D from n s =
     (let s1 = s\<lparr>scrolledLines := scrolledLines s + n\<rparr>
      in if n \<le> 0 then Some s1
         else if from > bottomMargin s1 then Some s1
         else
           let n1 = (if from + n > bottomMargin s1 then bottomMargin s1 - from else n)
           in case moveImage (loc s1 0 (from + n1)) (loc s1 0 from)
                     (loc s1 (columns s1 - 1) (bottomMargin s1 - n1)) s1 of
                None \<Rightarrow> None
              | Some s2 \<Rightarrow>
                  clearImage D (loc s2 0 from) (loc s2 (columns s2 - 1) (from + n1 - 1)) 32 s2)"

text \<open>
  \<open>Screen::addHistLine\<close>, the only place where \<open>scrollUp(int)\<close> hands a line to the
  history; \<open>histSelection\<close> is its second half, which shifts the selection.
\<close>

definition histSelection :: "int \<Rightarrow> int \<Rightarrow> Screen \<Rightarrow> Screen" where
  "histSelection oldHistLines newHistLines s =
     (let beginIsTL = (selBegin s = selTopLeft s);
          s2 = (if newHistLines > oldHistLines \<and> selBegin s \<noteq> -1
                then s\<lparr>selTopLeft := selTopLeft s + columns s,
                      selBottomRight := selBottomRight s + columns s\<rparr>
                else s)
      in if selBegin s2 \<noteq> -1 then
           let top_BR = loc s2 0 (1 + newHistLines);
               tl3 = (if selTopLeft s2 < top_BR then selTopLeft s2 - columns s2
                      else selTopLeft s2);
               br4 = (if selBottomRight s2 < top_BR then selBottomRight s2 - columns s2
                      else selBottomRight s2);
               s5 = (if br4 < 0
                     then clearSelection (s2\<lparr>selTopLeft := tl3, selBottomRight := br4\<rparr>)
                     else s2\<lparr>selTopLeft := (if tl3 < 0 then 0 else tl3), selBottomRight := br4\<rparr>)
           in s5\<lparr>selBegin := (if beginIsTL then selTopLeft s5 else selBottomRight s5)\<rparr>
         else s2)"

definition addHistLine :: "decls \<Rightarrow> Screen \<Rightarrow> Screen option" where
  "addHistLine D s =
     (let oldHistLines = getLines (history s) in
      if hasScroll (history s) \<and> (screenLines s = [] \<or> lineProperties s = []) then None
      else
        let s1 = (if hasScroll (history s) then
                    let s' = s\<lparr>history :=
                               history_append (history s) (screenLines s ! 0)
                                 (lineProperties s ! 0 AND LINE_WRAPPED D \<noteq> 0)\<rparr>
                    in if getLines (history s') = oldHistLines
                       then s'\<lparr>droppedLines := droppedLines s' + 1,
                              urlLinesRemoved := urlLinesRemoved s' @ [1]\<rparr>
                       else s'
                  else s)
        in Some (histSelection oldHistLines (getLines (history s1)) s1))"

text \<open>\<open>Screen::scrollUp(int n)\<close> and \<open>Screen::index()\<close>.\<close>

definition scrollUp1 :: "decls \<Rightarrow> int \<Rightarrow> Screen \<Rightarrow> Screen option" where
  "scrollUp1 D n s =
     (let n1 = (if n < 1 then 1 else n)
      in if topMargin s = 0 then
           (case addHistLine D s of
              None \<Rightarrow> None
            | Some s1 \<Rightarrow> scrollUp D (topMargin s1) n1 s1)
         else scrollUp D (topMargin s) n1 s)"

definition index :: "decls \<Rightarrow> Screen \<Rightarrow> Screen option" where
  "index D s =
     (if cuY s = bottomMargin s then scrollUp1 D 1 s
      else if cuY s < lines s - 1 then Some (s\<lparr>cuY := cuY s + 1\<rparr>)
      else Some s)"

text \<open>
  The state a \<open>Screen\<close> keeps between calls: the grid has \<open>lines + 1\<close> rows, the margins
  lie inside the screen, and there is at least one column.
\<close>

definition wf_screen :: "Screen \<Rightarrow> bool" where
  "wf_screen s =
     (0 < columns s \<and> 0 \<le> topMargin s \<and> topMargin s \<le> bottomMargin s \<and>
      bottomMargin s < lines s \<and>
      int (length (screenLines s)) = lines s + 1 \<and>
      int (length (lineProperties s)) = lines s + 1)"

text \<open>
  What a reader of line \<open>line\<close> sees at column \<open>x\<close>: the stored cell, or the default
  cell beyond the stored length (\<open>QVector::value(x, Screen::DefaultChar)\<close> in
  \<open>copyFromScreen\<close>).
\<close>

definition cellAt :: "decls \<Rightarrow> Character list \<Rightarrow> nat \<Rightarrow> Character" where
  "cellAt D line x = (if x < length line then line ! x else DefaultChar D)"

section \<open>ScreenWindow.cpp\<close>

text \<open>
  A \<open>ScreenWindow\<close> holds a pointer to its \<open>Screen\<close>; the functions below take the
  screen as it is at the time of the call, so a change of the screen between two calls is
  a different argument. \<open>std::clamp(v, lo, hi)\<close> is \<open>v < lo ? lo : hi < v ? hi : v\<close>
  when \<open>lo \<le> hi\<close> and is undefined when \<open>hi < lo\<close>: \<open>currentLine\<close> always calls it with
  \<open>lo = 0 \<le> hi\<close>, and \<open>scrollTo\<close>, which calls it with \<open>hi = lineCount - windowLines\<close>,
  returns \<open>None\<close> when that is negative.
\<close>

record ScreenWindow =
  m_windowLines :: int
  m_currentLine :: int
  m_currentResultLine :: int
  m_trackOutput :: bool
  m_scrollCount :: int
  m_bufferNeedsUpdate :: bool

datatype RelativeScrollMode = ScrollLines | ScrollPages

definition std_clamp :: "int \<Rightarrow> int \<Rightarrow> int \<Rightarrow> int" where
  "std_clamp v lo hi = (if v < lo then lo else if hi < v then hi else v)"

definition windowLines :: "ScreenWindow \<Rightarrow> int" where
  "windowLines w = m_windowLines w"

definition lineCount :: "Screen \<Rightarrow> int" where
  "lineCount sc = getLines (history sc) + lines sc"

definition currentLine :: "ScreenWindow \<Rightarrow> Screen \<Rightarrow> int" where
  "currentLine w sc = std_clamp (m_currentLine w) 0 (max 0 (lineCount sc - windowLines w))"

text \<open>\<open>setWindowLines\<close> asserts \<open>lines > 0\<close>.\<close>

definition setWindowLines :: "int \<Rightarrow> ScreenWindow \<Rightarrow> ScreenWindow option" where
  "setWindowLines n w = (if n > 0 then Some (w\<lparr>m_windowLines := n\<rparr>) else None)"

definition scrollTo :: "int \<Rightarrow> Screen \<Rightarrow> ScreenWindow \<Rightarrow> ScreenWindow option" where
  "scrollTo line sc w =
     (let maxCurrentLineNumber = lineCount sc - windowLines w
      in if maxCurrentLineNumber < 0 then None
         else
           let line1 = std_clamp line 0 maxCurrentLineNumber;
               delta = line1 - m_currentLine w
           in Some (w\<lparr>m_currentLine := line1, m_scrollCount := m_scrollCount w + delta,
                      m_bufferNeedsUpdate := True\<rparr>))"

definition scrollBy ::
  "RelativeScrollMode \<Rightarrow> int \<Rightarrow> bool \<Rightarrow> Screen \<Rightarrow> ScreenWindow \<Rightarrow> ScreenWindow option" where
  "scrollBy mode amount fullPage sc w =
     (case mode of
        ScrollLines \<Rightarrow> scrollTo (currentLine w sc + amount) sc w
      | ScrollPages \<Rightarrow>
          if fullPage then scrollTo (currentLine w sc + amount * windowLines w) sc w
          else scrollTo (currentLine w sc + amount * cdiv (windowLines w) 2) sc w)"

definition notifyOutputChanged :: "Screen \<Rightarrow> ScreenWindow \<Rightarrow> ScreenWindow" where
  "notifyOutputChanged sc w =
     (let w1 =
        (if m_trackOutput w then
           w\<lparr>m_scrollCount := m_scrollCount w - scrolledLines sc,
             m_currentLine := max 0 (getLines (history sc) - (windowLines w - lines sc))\<rparr>
         else
           let w' = w\<lparr>m_currentLine := max 0 (m_currentLine w - droppedLines sc)\<rparr>
           in w'\<lparr>m_currentLine := min (m_currentLine w') (getLines (history sc))\<rparr>)
      in w1\<lparr>m_bufferNeedsUpdate := True\<rparr>)"

text \<open>
  The operations of a window, each with the screen it sees, and a run of them from a
  state; a run stops with \<open>None\<close> at a failed assertion or an undefined \<open>std::clamp\<close>.
\<close>

datatype WindowOp =
  ScrollTo int Screen
  | ScrollBy RelativeScrollMode int bool Screen
  | SetWindowLines int
  | NotifyOutputChanged Screen

fun applyOp :: "WindowOp \<Rightarrow> ScreenWindow \<Rightarrow> ScreenWindow option" where
  "applyOp (ScrollTo line sc) w = scrollTo line sc w"
| "applyOp (ScrollBy mode amount fullPage sc) w = scrollBy mode amount fullPage sc w"
| "applyOp (SetWindowLines n) w = setWindowLines n w"
| "applyOp (NotifyOutputChanged sc) w = Some (notifyOutputChanged sc w)"

fun runOps :: "WindowOp list \<Rightarrow> ScreenWindow \<Rightarrow> ScreenWindow option" where
  "runOps [] w = Some w"
| "runOps (x # xs) w = (case applyOp x w of None \<Rightarrow> None | Some w' \<Rightarrow> runOps xs w')"

section \<open>HistoryFile.cpp\<close>

text \<open>
  The temporary file is its bytes. What the calls on it return (\<open>seek\<close>, \<open>write\<close>,
  \<open>read\<close>, \<open>flush\<close>, \<open>map\<close>, \<open>unmap\<close>) is decided outside the program and is an
  argument of the model; a \<open>write\<close> or \<open>read\<close> that reports failure has transferred
  nothing. A mapping is the bytes it shows. \<open>qint64\<close> values (\<open>_length\<close>, \<open>loc\<close>, \<open>size\<close>,
  \<open>count\<close> and the results of \<open>write\<close> and \<open>read\<close>) are \<open>64 word\<close>, read as two's
  complement by \<open>sint\<close>: the sum \<open>loc + size\<close> of the guard of \<open>get\<close> and \<open>_length += rc\<close>
  wrap around, which is what the compiled program computes where the sum leaves the type. \<open>MAP_THRESHOLD\<close> is declared in \<open>HistoryFile.h\<close>, which is not among the
  sources, and is a parameter. The messages written to \<open>stderr\<close> are returned with the
  state.
\<close>

type_synonym bytes = "8 word list"

record IoOutcome =
  seek_ok :: bool
  write_rc :: "64 word"
  read_rc :: "64 word"
  flush_ok :: bool
  map_ok :: bool
  unmap_ok :: bool

record HistoryFile =
  length_hf :: "64 word"
  fileMap :: "bytes option"
  readWriteBalance :: int
  tmpFile :: bytes

definition INT_MAX :: int where
  "INT_MAX = 2147483647"

definition INT_MIN :: int where
  "INT_MIN = - 2147483648"

definition map_hf :: "IoOutcome \<Rightarrow> HistoryFile \<Rightarrow> HistoryFile \<times> string list" where
  "map_hf io h =
     (let h1 = (if flush_ok io \<and> map_ok io
                then h\<lparr>fileMap := Some (take (nat (sint (length_hf h))) (tmpFile h))\<rparr> else h)
      in if fileMap h1 = None
         then (h1\<lparr>readWriteBalance := 0\<rparr>, [''mmap'ing history failed.''])
         else (h1, []))"

definition unmap :: "IoOutcome \<Rightarrow> HistoryFile \<Rightarrow> HistoryFile" where
  "unmap io h = (if unmap_ok io then h\<lparr>fileMap := None\<rparr> else h)"

definition add :: "IoOutcome \<Rightarrow> bytes \<Rightarrow> 64 word \<Rightarrow> HistoryFile \<Rightarrow> HistoryFile \<times> string list" where
  "add io buffer count h =
     (let h1 = (if fileMap h \<noteq> None then unmap io h else h);
          h2 = (if readWriteBalance h1 < INT_MAX
                then h1\<lparr>readWriteBalance := readWriteBalance h1 + 1\<rparr> else h1)
      in if \<not> seek_ok io then (h2, [''HistoryFile::add.seek''])
         else
           let rc = write_rc io
           in if sint rc < 0 then (h2, [''HistoryFile::add.write''])
              else
                (h2\<lparr>tmpFile :=
                      take (nat (sint (length_hf h2))) (tmpFile h2) @ take (nat (sint rc)) buffer
                        @ drop (nat (sint (length_hf h2)) + nat (sint rc)) (tmpFile h2),
                    length_hf := length_hf h2 + rc\<rparr>, []))"

definition get ::
  "int \<Rightarrow> IoOutcome \<Rightarrow> bytes \<Rightarrow> 64 word \<Rightarrow> 64 word \<Rightarrow> HistoryFile
     \<Rightarrow> HistoryFile \<times> bytes \<times> string list" where
  "get MAP_THRESHOLD io buffer size' loc' h =
     (if sint loc' < 0 \<or> sint size' < 0 \<or> sint (loc' + size') > sint (length_hf h)
      then (h, buffer, [''getHist(...): invalid args.''])
      else
        let h1 = (if readWriteBalance h > INT_MIN
                  then h\<lparr>readWriteBalance := readWriteBalance h - 1\<rparr> else h);
            (h2, msgs) = (if fileMap h1 = None \<and> readWriteBalance h1 < MAP_THRESHOLD
                          then map_hf io h1 else (h1, []))
        in case fileMap h2 of
             Some m \<Rightarrow>
               (h2, take (nat (sint size')) (drop (nat (sint loc')) m)
                      @ drop (nat (sint size')) buffer, msgs)
           | None \<Rightarrow>
               if \<not> seek_ok io then (h2, buffer, msgs @ [''HistoryFile::get.seek''])
               else
                 let rc = read_rc io
                 in if sint rc < 0 then (h2, buffer, msgs @ [''HistoryFile::get.read''])
                    else
                      (h2, take (nat (sint rc)) (drop (nat (sint loc')) (tmpFile h2))
                             @ drop (nat (sint rc)) buffer,
                       msgs))"

definition len :: "HistoryFile \<Rightarrow> 64 word" where
  "len h = length_hf h"

section \<open>Filter.cpp and RegExpFilter.cpp\<close>

text \<open>A \<open>QString\<close> is its sequence of 16-bit units.\<close>

type_synonym QString = "16 word list"


text \<open>
  Modelled from the spec: the class \<open>HotSpot\<close> (\<open>HotSpot.h\<close> is not among the sources). The
  spec: a hotspot carries a start and an end \<open>(line, column)\<close> and, for a regex filter,
  the captured texts.
\<close>

record HotSpot =
  startLine :: int
  startColumn :: int
  endLine :: int
  endColumn :: int
  capturedTexts :: "QString list"

text \<open>
  \<open>Filter\<close>: \<open>hotspots\<close> is the \<open>QMultiHash\<close> from lines to hotspots, given by the list
  \<open>values(line)\<close> of each line, the most recently inserted first; \<open>setBuffer\<close> stores
  pointers to the buffer and to the line positions, and the model holds what they point to
  (the functions that use them assert that they are set).
\<close>

record Filter =
  hotspots :: "int \<Rightarrow> HotSpot list"
  hotspotList :: "HotSpot list"
  linePositions :: "int list"
  buffer :: QString

definition reset :: "Filter \<Rightarrow> Filter" where
  "reset f = f\<lparr>hotspots := (\<lambda>line. []), hotspotList := []\<rparr>"

definition setBuffer :: "QString \<Rightarrow> int list \<Rightarrow> Filter \<Rightarrow> Filter" where
  "setBuffer b lp f = f\<lparr>buffer := b, linePositions := lp\<rparr>"


definition addHotSpot :: "HotSpot \<Rightarrow> Filter \<Rightarrow> Filter" where
  "addHotSpot spot f =
     f\<lparr>hotspotList := hotspotList f @ [spot],
       hotspots := foldl (\<lambda>h line. h(line := spot # h line)) (hotspots f)
                     [startLine spot..endLine spot]\<rparr>"

text \<open>The test of the loop of \<open>hotSpotAt\<close>: neither \<open>continue\<close> is taken.\<close>

definition inside :: "HotSpot \<Rightarrow> int \<Rightarrow> int \<Rightarrow> bool" where
  "inside spot line column =
     (\<not> (startLine spot = line \<and> startColumn spot > column) \<and>
      \<not> (endLine spot = line \<and> endColumn spot < column))"

definition hotSpotAt :: "Filter \<Rightarrow> int \<Rightarrow> int \<Rightarrow> HotSpot option" where
  "hotSpotAt f line column = find (\<lambda>spot. inside spot line column) (hotspots f line)"





section \<open>HTMLDecoder.cpp\<close>

text \<open>
  The parts of Qt and of the extended-character table that \<open>decodeLine\<close> calls are
  parameters: \<open>ExtendedCharTable::lookupExtendedChar\<close> (the code points of a key, or no
  entry), \<open>QString::fromUcs4\<close> and \<open>QColor::name\<close>. A \<open>QLatin1String\<close> literal is the
  string of its characters' codes.
\<close>

record TextEnv =
  lookupExtendedChar :: "32 word \<Rightarrow> 32 word list option"
  fromUcs4 :: "32 word list \<Rightarrow> QString"
  colorName :: "QColor \<Rightarrow> QString"

definition Latin1 :: "string \<Rightarrow> QString" where
  "Latin1 s = map of_char s"

text \<open>
  \<open>m_output\<close> is the stream \<open>_output\<close> that \<open>begin\<close> sets, given by the text written to it so far;
  \<open>_colorTable\<close> may be null.
\<close>

record HTMLDecoder =
  m_output :: "QString option"
  colorTable :: "palette option"
  innerSpanOpen :: bool
  lastRendition :: "16 word"
  lastForeColor :: CharacterColor
  lastBackColor :: CharacterColor

definition openSpan :: "QString \<Rightarrow> QString \<Rightarrow> QString" where
  "openSpan text' style = text' @ Latin1 (''<span style='' @ [CHR 0x22]) @ style @ Latin1 ([CHR 0x22] @ ''>'')"

definition closeSpan :: "QString \<Rightarrow> QString" where
  "closeSpan text' = text' @ Latin1 ''</span>''"

text \<open>
  The first block of the loop of \<open>decodeLine\<close>: when the appearance of the cell differs
  from that of the cell before, the open inner span is closed and a span with the new
  style is opened. The result is the markup appended to the text and the new state.
\<close>

definition spanSwitch :: "decls \<Rightarrow> TextEnv \<Rightarrow> Character \<Rightarrow> HTMLDecoder \<Rightarrow> QString \<times> HTMLDecoder" where
  "spanSwitch D E c d =
     (if rendition c \<noteq> lastRendition d \<or> foregroundColor c \<noteq> lastForeColor d \<or>
         backgroundColor c \<noteq> lastBackColor d
      then
        let text1 = (if innerSpanOpen d then closeSpan [] else []);
            d1 = d\<lparr>innerSpanOpen := False, lastRendition := rendition c,
                   lastForeColor := foregroundColor c, lastBackColor := backgroundColor c\<rparr>;
            style =
              (case colorTable d1 of
                 Some table \<Rightarrow>
                   (if lastRendition d1 AND RE_BOLD D \<noteq> 0 then Latin1 ''font-weight:bold;'' else [])
                   @ (if lastRendition d1 AND RE_UNDERLINE D \<noteq> 0
                      then Latin1 ''font-decoration:underline;'' else [])
                   @ Latin1 ''color:''
                   @ colorName E (CharacterColor_color (lastForeColor d1) table) @ Latin1 '';''
                   @ Latin1 ''background-color:''
                   @ colorName E (CharacterColor_color (lastBackColor d1) table) @ Latin1 '';''
               | None \<Rightarrow> [])
        in (openSpan text1 style, d1\<lparr>innerSpanOpen := True\<rparr>)
      else ([], d))"

text \<open>
  The block \<open>output current character\<close> for a cell that is not a repeated space: an
  extended cell is replaced by the code points of its key, another cell by its character
  (\<open>QChar\<close> keeps the low sixteen bits), with \<open><\<close>, \<open>>\<close> and \<open>&\<close> escaped.
\<close>

definition emitChar :: "decls \<Rightarrow> TextEnv \<Rightarrow> Character \<Rightarrow> QString" where
  "emitChar D E c =
     (if rendition c AND RE_EXTENDED_CHAR D \<noteq> 0 then
        (case lookupExtendedChar E (character c) of
           Some chars \<Rightarrow> fromUcs4 E chars
         | None \<Rightarrow> [])
      else
        let ch = (ucast (character c) :: 16 word)
        in if ch = of_char CHR ''<'' then Latin1 ''&lt;''
           else if ch = of_char CHR ''>'' then Latin1 ''&gt;''
           else if ch = of_char CHR ''&'' then Latin1 ''&amp;''
           else [ch])"

text \<open>The body of the loop, on the text built so far, \<open>spaceCount\<close> and the decoder.\<close>

definition decodeChar ::
  "decls \<Rightarrow> TextEnv \<Rightarrow> Character \<Rightarrow> QString \<times> int \<times> HTMLDecoder \<Rightarrow> QString \<times> int \<times> HTMLDecoder" where
  "decodeChar D E c st =
     (case st of
        (text', spaceCount, d) \<Rightarrow>
          (case spanSwitch D E c d of
             (markup, d1) \<Rightarrow>
               let text1 = text' @ markup;
                   spaceCount1 = (if isSpace D c then spaceCount + 1 else 0)
               in if spaceCount1 < 2 then (text1 @ emitChar D E c, spaceCount1, d1)
                  else (text1 @ Latin1 ''&#160;'', spaceCount1, d1)))"

definition decodeLine :: "decls \<Rightarrow> TextEnv \<Rightarrow> Character list \<Rightarrow> HTMLDecoder \<Rightarrow> HTMLDecoder option" where
  "decodeLine D E characters d =
     (case m_output d of
        None \<Rightarrow> None
      | Some out \<Rightarrow>
          (case foldl (\<lambda>st c. decodeChar D E c st) ([], 0, d) characters of
             (text', spaceCount, d1) \<Rightarrow>
               let text1 = (if innerSpanOpen d1 then closeSpan text' else text');
                   d2 = (if innerSpanOpen d1 then d1\<lparr>innerSpanOpen := False\<rparr> else d1);
                   text2 = text1 @ Latin1 ''<br>''
               in Some (d2\<lparr>m_output := Some (out @ text2)\<rparr>)))"

section \<open>Spec-side definitions and example values\<close>

text \<open>
  The derivation of the effective attributes from the current ones, in the words of the
  spec: the effective rendition is the current one; reverse swaps foreground and
  background; bold without faint makes the effective foreground intensive; faint
  without bold makes it faint.
\<close>

definition effective_derived :: "decls \<Rightarrow> Screen \<Rightarrow> bool" where
  "effective_derived D s =
     (let reverse = (currentRendition s AND RE_REVERSE D \<noteq> 0);
          bold = (currentRendition s AND RE_BOLD D \<noteq> 0);
          faint = (currentRendition s AND RE_FAINT D \<noteq> 0);
          fore = (if reverse then currentBackground s else currentForeground s);
          back = (if reverse then currentForeground s else currentBackground s)
      in effectiveRendition s = currentRendition s \<and>
         effectiveBackground s = back \<and>
         effectiveForeground s =
           (if bold \<and> \<not> faint then setIntensive fore
            else if faint \<and> \<not> bold then setFaint D fore
            else fore))"

text \<open>
  An instance of the undeclared parts and a small screen (three lines of four columns,
  margins at the full screen, an unlimited history), for evaluating the model at concrete
  inputs.
\<close>

definition exampleDecls :: decls where
  "exampleDecls =
     \<lparr>RE_BOLD = 1, RE_UNDERLINE = 4, RE_REVERSE = 8, RE_FAINT = 128, RE_EXTENDED_CHAR = 64,
      DEFAULT_RENDITION = 0, LINE_WRAPPED = 1,
      Character0 =
        \<lparr>character = 32,
         foregroundColor = CharacterColor2 COLOR_SPACE_DEFAULT DEFAULT_FORE_COLOR,
         backgroundColor = CharacterColor2 COLOR_SPACE_DEFAULT DEFAULT_BACK_COLOR,
         rendition = 0, isRealCharacter = True\<rparr>,
      setFaint = (\<lambda>c. c\<lparr>m_v := 2\<rparr>),
      isSpace = (\<lambda>c. character c = 32)\<rparr>"

definition exampleCell :: "32 word \<Rightarrow> Character" where
  "exampleCell c =
     \<lparr>character = c,
      foregroundColor = CharacterColor2 COLOR_SPACE_SYSTEM 2,
      backgroundColor = CharacterColor2 COLOR_SPACE_DEFAULT DEFAULT_BACK_COLOR,
      rendition = 0, isRealCharacter = True\<rparr>"

definition exampleScreen :: Screen where
  "exampleScreen =
     \<lparr>lines = 3, columns = 4,
      screenLines = [[exampleCell 65, exampleCell 66], [exampleCell 67], [exampleCell 68], []],
      lineProperties = [1, 0, 0, 0],
      scrolledLines = 0, lastScrolledRegion = QRectNull, droppedLines = 0,
      history = HistoryScrollFile [],
      cuX = 1, cuY = 2,
      currentForeground = CharacterColor2 COLOR_SPACE_SYSTEM 2,
      currentBackground = CharacterColor2 COLOR_SPACE_DEFAULT DEFAULT_BACK_COLOR,
      currentRendition = 1,
      topMargin = 0, bottomMargin = 2,
      selBegin = -1, selTopLeft = -1, selBottomRight = -1,
      effectiveForeground = setIntensive (CharacterColor2 COLOR_SPACE_SYSTEM 2),
      effectiveBackground = CharacterColor2 COLOR_SPACE_DEFAULT DEFAULT_BACK_COLOR,
      effectiveRendition = 1,
      lastPos = -1,
      savedState =
        \<lparr>cursorColumn = 0, cursorLine = 0, rendition_saved = 0,
         foreground_saved = CharacterColor2 COLOR_SPACE_DEFAULT DEFAULT_FORE_COLOR,
         background_saved = CharacterColor2 COLOR_SPACE_DEFAULT DEFAULT_BACK_COLOR\<rparr>,
      urlLinesRemoved = []\<rparr>"

text \<open>A window, a run of operations on it, a history file and two outcomes of its calls.\<close>

definition exampleWindow :: ScreenWindow where
  "exampleWindow =
     \<lparr>m_windowLines = 1, m_currentLine = 0, m_currentResultLine = - 1, m_trackOutput = True,
      m_scrollCount = 0, m_bufferNeedsUpdate = True\<rparr>"

definition exampleOps :: "WindowOp list" where
  "exampleOps =
     [SetWindowLines 2, ScrollTo 7 exampleScreen, NotifyOutputChanged exampleScreen,
      ScrollBy ScrollPages 3 True exampleScreen, SetWindowLines 1,
      ScrollTo 9 (exampleScreen\<lparr>lines := 5\<rparr>)]"

definition exampleFile :: HistoryFile where
  "exampleFile =
     \<lparr>length_hf = 4, fileMap = None, readWriteBalance = 0, tmpFile = [1, 2, 3, 4]\<rparr>"

definition failingSeek :: IoOutcome where
  "failingSeek =
     \<lparr>seek_ok = False, write_rc = 2, read_rc = 2, flush_ok = True, map_ok = True,
      unmap_ok = True\<rparr>"

definition failingWrite :: IoOutcome where
  "failingWrite =
     \<lparr>seek_ok = True, write_rc = - 1, read_rc = 2, flush_ok = True, map_ok = True,
      unmap_ok = True\<rparr>"








definition exampleFilter :: Filter where
  "exampleFilter =
     \<lparr>hotspots = (\<lambda>line. []), hotspotList = [], linePositions = [0], buffer = [98, 97, 97]\<rparr>"

text \<open>
  The state of a filter after \<open>reset\<close> and the insertion of the hotspots \<open>spots\<close> in
  order, which is how \<open>process\<close> leaves a filter.
\<close>

definition builtFilter :: "HotSpot list \<Rightarrow> Filter \<Rightarrow> Filter" where
  "builtFilter spots g = foldl (\<lambda>f spot. addHotSpot spot f) (reset g) spots"

definition exampleSpot :: HotSpot where
  "exampleSpot =
     \<lparr>startLine = 0, startColumn = 5, endLine = 2, endColumn = 3, capturedTexts = []\<rparr>"

text \<open>
  The markup that \<open>decodeLine\<close> puts before each cell of a row, and the decoder after the
  row's span switches.
\<close>

fun spanMarkups :: "decls \<Rightarrow> TextEnv \<Rightarrow> HTMLDecoder \<Rightarrow> Character list \<Rightarrow> QString list" where
  "spanMarkups D E d [] = []"
| "spanMarkups D E d (c # cs) =
     fst (spanSwitch D E c d) # spanMarkups D E (snd (spanSwitch D E c d)) cs"

fun spanState :: "decls \<Rightarrow> TextEnv \<Rightarrow> HTMLDecoder \<Rightarrow> Character list \<Rightarrow> HTMLDecoder" where
  "spanState D E d [] = d"
| "spanState D E d (c # cs) = spanState D E (snd (spanSwitch D E c d)) cs"

text \<open>
  The text that \<open>decodeLine\<close> emits for each cell of a row besides the markup: \<open>prev\<close>
  says whether the cell before was a space.
\<close>

fun cellTexts :: "decls \<Rightarrow> TextEnv \<Rightarrow> bool \<Rightarrow> Character list \<Rightarrow> QString list" where
  "cellTexts D E prev [] = []"
| "cellTexts D E prev (c # cs) =
     (if isSpace D c \<and> prev then Latin1 ''&#160;'' else emitChar D E c)
       # cellTexts D E (isSpace D c) cs"

text \<open>
  An environment, a decoder after \<open>begin\<close> with no colour table, and a row: the cells
  \<open>a\<close>, \<open><\<close>, three spaces, \<open>&\<close> and \<open>>\<close>, all of one appearance.
\<close>

definition exampleEnv :: TextEnv where
  "exampleEnv =
     \<lparr>lookupExtendedChar = (\<lambda>key. None), fromUcs4 = map ucast,
      colorName = (\<lambda>c. Latin1 ''#000000'')\<rparr>"

definition exampleDecoder :: HTMLDecoder where
  "exampleDecoder =
     \<lparr>m_output = Some [], colorTable = None, innerSpanOpen = False,
      lastRendition = DEFAULT_RENDITION exampleDecls, lastForeColor = CharacterColor0,
      lastBackColor = CharacterColor0\<rparr>"

definition exampleRow :: "Character list" where
  "exampleRow = map exampleCell [97, 60, 32, 32, 32, 38, 62]"

text \<open>
  An extended cell: the character \<open><\<close> followed by the combining mark \<open>U+0338\<close>, which
  \<open>Screen::displayCharacter\<close> merges into one cell whose \<open>character\<close> is a key of the
  extended-character table (here the key \<open>1\<close>).
\<close>

definition clusterEnv :: TextEnv where
  "clusterEnv =
     \<lparr>lookupExtendedChar = (\<lambda>key. if key = 1 then Some [60, 824] else None),
      fromUcs4 = map ucast, colorName = (\<lambda>c. Latin1 ''#000000'')\<rparr>"

definition clusterCell :: Character where
  "clusterCell = (exampleCell 1)\<lparr>rendition := RE_EXTENDED_CHAR exampleDecls\<rparr>"

chapter \<open>Properties\<close>

section \<open>Resolution of indexed colours\<close>

lemma unat_sub8: "unat k \<le> unat u \<Longrightarrow> unat (u - k) = unat u - unat k" for k :: "8 word"
  by (simp add: unat_sub word_le_nat_alt)

lemma uint_sub8:
  fixes k :: "8 word"
  assumes "unat k \<le> unat u"
  shows "uint (u - k) = int (unat u) - int (unat k)"
proof -
  have "uint (u - k) = int (unat (u - k))" by (rule uint_nat)
  also have "\<dots> = int (unat u - unat k)" by (simp only: unat_sub8 [OF assms])
  also have "\<dots> = int (unat u) - int (unat k)" using assms by (rule of_nat_diff)
  finally show ?thesis .
qed

lemma word8_lt8: "((u::8 word) < 8) = (unat u < 8)"
    by (simp add: word_less_nat_alt)

lemma unat_minus8: "\<not> unat u < 8 \<Longrightarrow> unat (u - 8) = unat u - 8" for  u :: "8 word"
      using unat_sub8 [of 8 u] by simp

lemma minus8_lt8: "\<not> unat u < 8 \<Longrightarrow> (u - 8 < 8) = (unat u < 16)" for  u :: "8 word"
  by (simp add: word_less_nat_alt unat_minus8) arith

lemma unat_minus16: "\<not> unat u < 16 \<Longrightarrow> unat (u - 16) = unat u - 16" for  u :: "8 word"
      using unat_sub8 [of 16 u] by simp

lemma uint_minus16: "\<not> unat u < 16 \<Longrightarrow> uint (u - 16) = int (unat u) - 16" for  u :: "8 word"
      using uint_sub8 [of 16 u] by simp

lemma minus16_lt216: "\<not> unat u < 16 \<Longrightarrow> (u - 16 < 216) = (unat u < 232)" for  u :: "8 word"
  by (simp add: word_less_nat_alt unat_minus16) arith

lemma uint_minus232: "\<not> unat u < 232 \<Longrightarrow> uint (u - 232) = int (unat u) - 232" for  u :: "8 word"
      using uint_sub8 [of 232 u] by simp

lemma color256_normal: "unat u < 8 \<Longrightarrow> color256 u base = color (base (unat u + 2))"
  by (simp add: color256_def word8_lt8)

lemma color256_intensive:
  assumes "\<not> unat u < 8" "unat u < 16"
  shows "color256 u base = color (base (unat u - 8 + 2 + BASE_COLORS))"
proof -
  have a: "\<not> u < 8" using assms(1) by (simp add: word8_lt8)
  have b: "u - 8 < 8" using assms by (simp add: minus8_lt8)
  show ?thesis unfolding color256_def Let_def using a b assms(1) by (simp add: unat_minus8)
qed

lemma if_ne_swap: "(if a \<noteq> b then x else y) = (if a = b then y else x)"
  by simp

lemma color256_cube:
  assumes "\<not> unat u < 16" "unat u < 232"
  shows "color256 u base = QColor (cube_channel ((int (unat u) - 16) div 36 mod 6))
               (cube_channel ((int (unat u) - 16) div 6 mod 6))
               (cube_channel ((int (unat u) - 16) mod 6))"
proof -
  have n8: "\<not> unat u < 8" using assms(1) by arith
  have a: "\<not> u < 8" using n8 by (simp add: word8_lt8)
  have b: "\<not> u - 8 < 8" using assms n8 by (simp add: minus8_lt8)
  have c: "u - 8 - 8 < 216" using assms by (simp add: minus16_lt216)
  have d: "uint (u - 8 - 8) = int (unat u) - 16" using assms(1) by (simp add: uint_minus16)
  show ?thesis unfolding color256_def Let_def cube_channel_def using a b c by (simp only: d if_True if_False div_by_1 if_ne_swap)
qed

lemma color256_gray:
  assumes "\<not> unat u < 232"
  shows "color256 u base = QColor ((int (unat u) - 232) * 10 + 8) ((int (unat u) - 232) * 10 + 8)
                  ((int (unat u) - 232) * 10 + 8)"
proof -
  have n16: "\<not> unat u < 16" using assms(1) by arith
  have n8: "\<not> unat u < 8" using assms(1) by arith
  have a: "\<not> u < 8" using n8 by (simp add: word8_lt8)
  have b: "\<not> u - 8 < 8" using n16 n8 by (simp add: minus8_lt8)
  have c: "\<not> u - 8 - 8 < 216" using assms n16 by (simp add: minus16_lt216)
  have d: "uint (u - 8 - 8 - 216) = int (unat u) - 232" using assms(1) by (simp add: uint_minus232)
  show ?thesis unfolding color256_def Let_def using a b c by (simp only: d if_True if_False)
qed

lemma and_255_id: "0 \<le> co \<Longrightarrow> co \<le> 255 \<Longrightarrow> (co::int) AND 255 = co"
proof -
  assume a: "0 \<le> co" "co \<le> 255"
  have "(255::int) = mask 8" by (simp add: mask_eq_exp_minus_1)
  then have "co AND 255 = take_bit 8 co" by (simp add: take_bit_eq_mask)
  also have "\<dots> = co" using a by (simp add: take_bit_int_eq_self)
  finally show ?thesis .
qed

lemma unat_word_of_int8: "0 \<le> co \<Longrightarrow> co \<le> 255 \<Longrightarrow> unat (word_of_int co :: 8 word) = nat co"
  by (simp add: unat_eq_nat_uint word_of_int_inverse uint_word_of_int take_bit_int_eq_self)


lemma cube_hi_lt: "co < 232 \<Longrightarrow> (co - 16) div 36 < (6::int)"
proof -
  assume "co < 232"
  then have "co - 16 \<le> 215" by simp
  then have "(co - 16) div 36 \<le> 215 div 36" by (rule zdiv_mono1) simp
  then show ?thesis by simp
qed

lemma cube_hi_ge: "16 \<le> co \<Longrightarrow> 0 \<le> (co - 16) div (36::int)"
  by (simp add: pos_imp_zdiv_nonneg_iff)

lemma cube_hi_mod: "16 \<le> co \<Longrightarrow> co < 232 \<Longrightarrow> (co - 16) div 36 mod 6 = (co - 16) div (36::int)"
  using cube_hi_lt cube_hi_ge by (simp add: mod_pos_pos_trivial)

lemma base6_digits: "(x::int) = 36 * (x div 36) + 6 * (x div 6 mod 6) + x mod 6"
proof -
  have a: "x div 36 = x div 6 div 6"
    using zdiv_zmult2_eq [of 6 x 6] by simp
  have b: "x = 6 * (x div 6) + x mod 6" by simp
  have c: "x div 6 = 6 * (x div 6 div 6) + x div 6 mod 6" by simp
  have "x = 6 * (6 * (x div 6 div 6) + x div 6 mod 6) + x mod 6"
    using b c by presburger
  then show ?thesis unfolding a by (simp only: distrib_left mult.assoc [symmetric])
qed


lemma cube_channel_range:
  "0 \<le> d \<Longrightarrow> d < 6 \<Longrightarrow> cube_channel d \<in> {0, 95, 135, 175, 215, 255}"
proof -
  assume "0 \<le> d" "d < 6"
  then have "d = 0 \<or> d = 1 \<or> d = 2 \<or> d = 3 \<or> d = 4 \<or> d = 5" by arith
  then show ?thesis by (auto simp: cube_channel_def)
qed

lemma index256_m_u:
  "0 \<le> co \<Longrightarrow> co \<le> 255 \<Longrightarrow>
   CharacterColor_color (CharacterColor2 COLOR_SPACE_256 co) base = color256 (word_of_int co) base"
  by (simp add: CharacterColor_color_def CharacterColor2_def and_255_id COLOR_SPACE_256_def
      COLOR_SPACE_DEFAULT_def COLOR_SPACE_SYSTEM_def)

lemma resolve_system:
  "CharacterColor_color \<lparr>colorSpace = COLOR_SPACE_SYSTEM, m_u = x, m_v = v, m_w = 0\<rparr> base
     = color (base (unat x + 2 + (if v \<noteq> 0 then BASE_COLORS else 0)))"
  by (simp add: CharacterColor_color_def COLOR_SPACE_SYSTEM_def COLOR_SPACE_DEFAULT_def)

lemma indexed_normal:
  assumes "0 \<le> co" and "co < 8"
  shows "CharacterColor_color (CharacterColor2 COLOR_SPACE_256 co) base = color (base (nat co + 2))"
proof -
  have le: "co \<le> 255" using assms by simp
  have n: "unat (word_of_int co :: 8 word) = nat co"
    using assms(1) le by (rule unat_word_of_int8)
  have "nat co < 8" using assms by simp
  then have "color256 (word_of_int co) base = color (base (nat co + 2))"
    using color256_normal [of "word_of_int co" base] unfolding n by blast
  then show ?thesis
    by (simp only: index256_m_u [OF assms(1) le])
qed

lemma indexed_intensive:
  assumes "8 \<le> co" and "co < 16"
  shows "CharacterColor_color (CharacterColor2 COLOR_SPACE_256 co) base =
    color (base (nat (co - 8) + 2 + BASE_COLORS))"
proof -
  have ge: "0 \<le> co" and le: "co \<le> 255" using assms by simp_all
  have n: "unat (word_of_int co :: 8 word) = nat co"
    using ge le by (rule unat_word_of_int8)
  have m: "nat co - 8 = nat (co - 8)" by simp
  have "\<not> nat co < 8" "nat co < 16" using assms by simp_all
  then have "color256 (word_of_int co) base = color (base (nat (co - 8) + 2 + BASE_COLORS))"
    using color256_intensive [of "word_of_int co" base] unfolding n m by blast
  then show ?thesis
    by (simp only: index256_m_u [OF ge le])
qed

lemma indexed_cube:
  assumes "16 \<le> co" and "co < 232"
  shows "CharacterColor_color (CharacterColor2 COLOR_SPACE_256 co) base =
    QColor (cube_channel ((co - 16) div 36)) (cube_channel ((co - 16) div 6 mod 6))
           (cube_channel ((co - 16) mod 6))"
proof -
  have ge: "0 \<le> co" and le: "co \<le> 255" using assms by simp_all
  have n: "unat (word_of_int co :: 8 word) = nat co"
    using ge le by (rule unat_word_of_int8)
  have i: "int (nat co) = co" using ge by simp
  have d: "(co - 16) div 36 mod 6 = (co - 16) div 36"
    using assms by (rule cube_hi_mod)
  have "\<not> nat co < 16" "nat co < 232" using assms by simp_all
  then have "color256 (word_of_int co) base =
      QColor (cube_channel ((co - 16) div 36 mod 6)) (cube_channel ((co - 16) div 6 mod 6))
             (cube_channel ((co - 16) mod 6))"
    using color256_cube [of "word_of_int co" base] unfolding n i by blast
  then show ?thesis
    by (simp only: index256_m_u [OF ge le] d)
qed

lemma indexed_gray:
  assumes "232 \<le> co" and "co \<le> 255"
  shows "CharacterColor_color (CharacterColor2 COLOR_SPACE_256 co) base =
    QColor (8 + 10 * (co - 232)) (8 + 10 * (co - 232)) (8 + 10 * (co - 232))"
proof -
  have ge: "0 \<le> co" using assms by simp
  have n: "unat (word_of_int co :: 8 word) = nat co"
    using ge assms(2) by (rule unat_word_of_int8)
  have i: "int (nat co) = co" using ge by simp
  have g: "(co - 232) * 10 + 8 = 8 + 10 * (co - 232)" by simp
  have "\<not> nat co < 232" using assms by simp
  then have "color256 (word_of_int co) base =
      QColor (8 + 10 * (co - 232)) (8 + 10 * (co - 232)) (8 + 10 * (co - 232))"
    using color256_gray [of "word_of_int co" base] unfolding n i g by blast
  then show ?thesis
    by (simp only: index256_m_u [OF ge assms(2)])
qed

lemma cube_channels_in_table:
  assumes "16 \<le> co" and "co < 232"
  shows "{cube_channel ((co - 16) div 36), cube_channel ((co - 16) div 6 mod 6),
          cube_channel ((co - 16) mod 6)} \<subseteq> {0, 95, 135, 175, 215, 255}"
proof -
  have "0 \<le> (co - 16) div 36" "(co - 16) div 36 < 6"
    using assms cube_hi_ge cube_hi_lt by simp_all
  then have a: "cube_channel ((co - 16) div 36) \<in> {0, 95, 135, 175, 215, 255}"
    by (rule cube_channel_range)
  have b: "cube_channel ((co - 16) div 6 mod 6) \<in> {0, 95, 135, 175, 215, 255}"
    by (rule cube_channel_range) simp_all
  have c: "cube_channel ((co - 16) mod 6) \<in> {0, 95, 135, 175, 215, 255}"
    by (rule cube_channel_range) simp_all
  show ?thesis using a b c by blast
qed

text \<open>
  Claim C6. Resolving an Indexed-256 colour with index \<open>co\<close> in \<open>0..255\<close> against
  any palette: for \<open>co\<close> in \<open>0..7\<close> it is the palette entry of the normal system
  colour \<open>co\<close> (offset \<open>co + 2\<close>); for \<open>co\<close> in \<open>8..15\<close> the entry of the
  intensive system colour \<open>co - 8\<close> (offset \<open>co - 8 + 2 + BASE_COLORS\<close>); for \<open>co\<close> in
  \<open>16..231\<close> the RGB colour whose channels are given by the three base-6 digits of
  \<open>co - 16\<close>, digit \<open>0\<close> giving \<open>0\<close> and digit \<open>d > 0\<close> giving \<open>40 * d + 55\<close>, so
  that every channel is one of \<open>0, 95, 135, 175, 215, 255\<close>; and for \<open>co\<close> in
  \<open>232..255\<close> the gray \<open>8 + 10 * (co - 232)\<close>, between \<open>8\<close> and \<open>238\<close>.
\<close>

theorem indexed256_resolution:
  assumes "0 \<le> co" and "co \<le> 255"
  shows
    "(co < 8 \<longrightarrow>
        CharacterColor_color (CharacterColor2 COLOR_SPACE_256 co) base = color (base (nat co + 2)) \<and>
        CharacterColor_color (CharacterColor2 COLOR_SPACE_256 co) base =
          CharacterColor_color
            \<lparr>colorSpace = COLOR_SPACE_SYSTEM, m_u = word_of_int co, m_v = 0, m_w = 0\<rparr> base) \<and>
     (8 \<le> co \<and> co < 16 \<longrightarrow>
        CharacterColor_color (CharacterColor2 COLOR_SPACE_256 co) base =
          color (base (nat (co - 8) + 2 + BASE_COLORS)) \<and>
        CharacterColor_color (CharacterColor2 COLOR_SPACE_256 co) base =
          CharacterColor_color
            \<lparr>colorSpace = COLOR_SPACE_SYSTEM, m_u = word_of_int (co - 8), m_v = 1, m_w = 0\<rparr> base) \<and>
     (16 \<le> co \<and> co < 232 \<longrightarrow>
        CharacterColor_color (CharacterColor2 COLOR_SPACE_256 co) base =
          QColor (cube_channel ((co - 16) div 36)) (cube_channel ((co - 16) div 6 mod 6))
                 (cube_channel ((co - 16) mod 6)) \<and>
        co - 16 = 36 * ((co - 16) div 36) + 6 * ((co - 16) div 6 mod 6) + (co - 16) mod 6 \<and>
        {cube_channel ((co - 16) div 36), cube_channel ((co - 16) div 6 mod 6),
         cube_channel ((co - 16) mod 6)} \<subseteq> {0, 95, 135, 175, 215, 255}) \<and>
     (232 \<le> co \<longrightarrow>
        CharacterColor_color (CharacterColor2 COLOR_SPACE_256 co) base =
          QColor (8 + 10 * (co - 232)) (8 + 10 * (co - 232)) (8 + 10 * (co - 232)) \<and>
        8 \<le> 8 + 10 * (co - 232) \<and> 8 + 10 * (co - 232) \<le> 238)"
proof (intro conjI impI)
  assume a: "co < 8"
  have n: "unat (word_of_int co :: 8 word) = nat co"
    using assms by (rule unat_word_of_int8)
  show "CharacterColor_color (CharacterColor2 COLOR_SPACE_256 co) base = color (base (nat co + 2))"
    using assms(1) a by (rule indexed_normal)
  then show "CharacterColor_color (CharacterColor2 COLOR_SPACE_256 co) base =
      CharacterColor_color
        \<lparr>colorSpace = COLOR_SPACE_SYSTEM, m_u = word_of_int co, m_v = 0, m_w = 0\<rparr> base"
    by (simp add: resolve_system n)
next
  assume a: "8 \<le> co \<and> co < 16"
  have n: "unat (word_of_int co - 8 :: 8 word) = nat (co - 8)"
    using a unat_word_of_int8 [of "co - 8"] by simp
  show "CharacterColor_color (CharacterColor2 COLOR_SPACE_256 co) base =
      color (base (nat (co - 8) + 2 + BASE_COLORS))"
    using a by (intro indexed_intensive) simp_all
  then show "CharacterColor_color (CharacterColor2 COLOR_SPACE_256 co) base =
      CharacterColor_color
        \<lparr>colorSpace = COLOR_SPACE_SYSTEM, m_u = word_of_int (co - 8), m_v = 1, m_w = 0\<rparr> base"
    by (simp add: resolve_system n)
next
  assume a: "16 \<le> co \<and> co < 232"
  show "CharacterColor_color (CharacterColor2 COLOR_SPACE_256 co) base =
      QColor (cube_channel ((co - 16) div 36)) (cube_channel ((co - 16) div 6 mod 6))
             (cube_channel ((co - 16) mod 6))"
    using a by (intro indexed_cube) simp_all
  show "co - 16 = 36 * ((co - 16) div 36) + 6 * ((co - 16) div 6 mod 6) + (co - 16) mod 6"
    by (rule base6_digits)
  show "{cube_channel ((co - 16) div 36), cube_channel ((co - 16) div 6 mod 6),
         cube_channel ((co - 16) mod 6)} \<subseteq> {0, 95, 135, 175, 215, 255}"
    using a by (intro cube_channels_in_table) simp_all
next
  assume a: "232 \<le> co"
  show "CharacterColor_color (CharacterColor2 COLOR_SPACE_256 co) base =
      QColor (8 + 10 * (co - 232)) (8 + 10 * (co - 232)) (8 + 10 * (co - 232))"
    using a assms(2) by (rule indexed_gray)
  show "8 \<le> 8 + 10 * (co - 232)" using a by simp
  show "8 + 10 * (co - 232) \<le> 238" using assms(2) by simp
qed

theorem indexed256_resolution_witness:
  "(\<forall>base. CharacterColor_color (CharacterColor2 COLOR_SPACE_256 3) base = color (base 5)) \<and>
   (\<forall>base. CharacterColor_color (CharacterColor2 COLOR_SPACE_256 12) base = color (base 16)) \<and>
   (\<forall>base. CharacterColor_color (CharacterColor2 COLOR_SPACE_256 196) base = QColor 255 0 0) \<and>
   (\<forall>base. CharacterColor_color (CharacterColor2 COLOR_SPACE_256 110) base = QColor 135 175 215) \<and>
   (\<forall>base. CharacterColor_color (CharacterColor2 COLOR_SPACE_256 232) base = QColor 8 8 8) \<and>
   (\<forall>base. CharacterColor_color (CharacterColor2 COLOR_SPACE_256 255) base = QColor 238 238 238)"
  using indexed256_resolution [of 3] indexed256_resolution [of 12]
    indexed256_resolution [of 196] indexed256_resolution [of 110]
    indexed256_resolution [of 232] indexed256_resolution [of 255]
  by (simp add: cube_channel_def BASE_COLORS_def)

section \<open>Cursor save and restore\<close>

lemma updateEffectiveRendition_current:
  "currentRendition (updateEffectiveRendition D s) = currentRendition s"
  "currentForeground (updateEffectiveRendition D s) = currentForeground s"
  "currentBackground (updateEffectiveRendition D s) = currentBackground s"
  "cuX (updateEffectiveRendition D s) = cuX s"
  "cuY (updateEffectiveRendition D s) = cuY s"
  by (simp_all add: updateEffectiveRendition_def Let_def)

text \<open>
  Claim C4. For every screen state, \<open>saveCursor\<close> followed at once by \<open>restoreCursor\<close>
  leaves the current rendition, foreground and background as they were at the save, and
  sets \<open>cuX\<close> to \<open>min (saved cuX) (columns - 1)\<close> and \<open>cuY\<close> to
  \<open>min (saved cuY) (lines - 1)\<close>; when the saved \<open>cuX < columns\<close> and \<open>cuY < lines\<close> the
  pair of calls is the identity on the cursor, the rendition and the two colours.
\<close>

theorem saveCursor_restoreCursor:
  "currentRendition (restoreCursor D (saveCursor s)) = currentRendition s \<and>
   currentForeground (restoreCursor D (saveCursor s)) = currentForeground s \<and>
   currentBackground (restoreCursor D (saveCursor s)) = currentBackground s \<and>
   cuX (restoreCursor D (saveCursor s)) = min (cuX s) (columns s - 1) \<and>
   cuY (restoreCursor D (saveCursor s)) = min (cuY s) (lines s - 1) \<and>
   (cuX s < columns s \<and> cuY s < lines s \<longrightarrow>
      cuX (restoreCursor D (saveCursor s)) = cuX s \<and>
      cuY (restoreCursor D (saveCursor s)) = cuY s)"
  by (simp add: restoreCursor_def saveCursor_def updateEffectiveRendition_current)

theorem saveCursor_restoreCursor_witness:
  "cuX exampleScreen < columns exampleScreen \<and> cuY exampleScreen < lines exampleScreen \<and>
   cuX (restoreCursor exampleDecls (saveCursor exampleScreen)) = 1 \<and>
   cuY (restoreCursor exampleDecls (saveCursor exampleScreen)) = 2 \<and>
   currentRendition (restoreCursor exampleDecls (saveCursor exampleScreen)) = 1 \<and>
   cuX (restoreCursor exampleDecls (saveCursor (exampleScreen\<lparr>cuX := 4\<rparr>))) = 3"
  using saveCursor_restoreCursor [of exampleDecls exampleScreen]
    saveCursor_restoreCursor [of exampleDecls "exampleScreen\<lparr>cuX := 4\<rparr>"]
  by (simp add: exampleScreen_def)

section \<open>Effective rendition\<close>

lemma updateEffectiveRendition_derived:
  "effective_derived D (updateEffectiveRendition D s)"
  by (simp add: effective_derived_def updateEffectiveRendition_def Let_def)

lemma setForeColor_derived: "effective_derived D (setForeColor D space c s)"
proof (induction D space c s rule: setForeColor.induct)
  case (1 D space c s)
  show ?case
    by (subst setForeColor.simps) (simp add: Let_def 1 updateEffectiveRendition_derived)
qed

lemma setBackColor_derived: "effective_derived D (setBackColor D space c s)"
proof (induction D space c s rule: setBackColor.induct)
  case (1 D space c s)
  show ?case
    by (subst setBackColor.simps) (simp add: Let_def 1 updateEffectiveRendition_derived)
qed

text \<open>
  Claim C5. After each of \<open>setRendition\<close>, \<open>resetRendition\<close>, \<open>setDefaultRendition\<close>,
  \<open>setForeColor\<close>, \<open>setBackColor\<close> and \<open>restoreCursor\<close> the effective attributes are the
  derivation \<open>effective_derived\<close> of the current ones: the effective rendition is the
  current rendition; with the reverse flag the effective foreground and background are the
  current background and foreground, otherwise the current foreground and background;
  bold without faint makes the effective foreground intensive, and faint without bold
  makes it faint.
\<close>

theorem effective_attributes_derived:
  "effective_derived D (setRendition D r s) \<and>
   effective_derived D (resetRendition D r s) \<and>
   effective_derived D (setDefaultRendition D s) \<and>
   effective_derived D (setForeColor D space c s) \<and>
   effective_derived D (setBackColor D space c s) \<and>
   effective_derived D (restoreCursor D s)"
  by (simp add: setRendition_def resetRendition_def setDefaultRendition_def restoreCursor_def
      Let_def updateEffectiveRendition_derived setForeColor_derived setBackColor_derived)

section \<open>Scrolling and the history\<close>

lemma cdiv_nonneg: "0 \<le> a \<Longrightarrow> 0 < b \<Longrightarrow> cdiv a b = a div b"
  by (cases "a = 0") (simp_all add: cdiv_def)

lemma cdiv_rows: "0 \<le> k \<Longrightarrow> 0 \<le> r \<Longrightarrow> r < c \<Longrightarrow> cdiv (k * c + r) c = k"
proof -
  assume a: "0 \<le> k" "0 \<le> r" "r < c"
  then have "0 \<le> k * c + r" by simp
  moreover have "0 < c" using a by simp
  ultimately have "cdiv (k * c + r) c = (k * c + r) div c" by (rule cdiv_nonneg)
  also have "\<dots> = k" using a by simp
  finally show ?thesis .
qed

lemma cmod_rows: "0 \<le> k \<Longrightarrow> 0 \<le> r \<Longrightarrow> r < c \<Longrightarrow> cmod (k * c + r) c = r"
  by (simp add: cmod_def cdiv_rows)

lemma cdiv_row0: "0 \<le> k \<Longrightarrow> 0 < c \<Longrightarrow> cdiv (k * c) c = k"
  using cdiv_rows [of k 0 c] by simp

lemma cmod_row0: "0 \<le> k \<Longrightarrow> 0 < c \<Longrightarrow> cmod (k * c) c = 0"
  using cmod_rows [of k 0 c] by simp

lemma length_copy_rows [simp]: "length (copy_rows is d s xs) = length xs"
  by (induction "is" arbitrary: xs) simp_all

lemma length_move_rows [simp]: "length (move_rows is d s xs) = length xs"
  by (induction "is" arbitrary: xs) simp_all

lemma clearSelection_fields [simp]:
  "history (clearSelection s) = history s"
  "columns (clearSelection s) = columns s"
  "lines (clearSelection s) = lines s"
  "topMargin (clearSelection s) = topMargin s"
  "bottomMargin (clearSelection s) = bottomMargin s"
  "scrolledLines (clearSelection s) = scrolledLines s"
  "screenLines (clearSelection s) = screenLines s"
  "lineProperties (clearSelection s) = lineProperties s"
  "currentForeground (clearSelection s) = currentForeground s"
  "currentBackground (clearSelection s) = currentBackground s"
  by (simp_all add: clearSelection_def)

lemma moveLines_fields [simp]:
  "history (moveLines d sb l dy sy s) = history s"
  "columns (moveLines d sb l dy sy s) = columns s"
  "lines (moveLines d sb l dy sy s) = lines s"
  "topMargin (moveLines d sb l dy sy s) = topMargin s"
  "bottomMargin (moveLines d sb l dy sy s) = bottomMargin s"
  "scrolledLines (moveLines d sb l dy sy s) = scrolledLines s"
  "length (screenLines (moveLines d sb l dy sy s)) = length (screenLines s)"
  "length (lineProperties (moveLines d sb l dy sy s)) = length (lineProperties s)"
  "currentForeground (moveLines d sb l dy sy s) = currentForeground s"
  "currentBackground (moveLines d sb l dy sy s) = currentBackground s"
  by (simp_all add: moveLines_def Let_def)

lemma moveLastPos_fields [simp]:
  "history (moveLastPos d sb l s) = history s"
  "columns (moveLastPos d sb l s) = columns s"
  "lines (moveLastPos d sb l s) = lines s"
  "topMargin (moveLastPos d sb l s) = topMargin s"
  "bottomMargin (moveLastPos d sb l s) = bottomMargin s"
  "scrolledLines (moveLastPos d sb l s) = scrolledLines s"
  "screenLines (moveLastPos d sb l s) = screenLines s"
  "lineProperties (moveLastPos d sb l s) = lineProperties s"
  "currentForeground (moveLastPos d sb l s) = currentForeground s"
  "currentBackground (moveLastPos d sb l s) = currentBackground s"
  by (simp_all add: moveLastPos_def Let_def)

lemma moveSelection_fields [simp]:
  "history (moveSelection d sb se s) = history s"
  "columns (moveSelection d sb se s) = columns s"
  "lines (moveSelection d sb se s) = lines s"
  "topMargin (moveSelection d sb se s) = topMargin s"
  "bottomMargin (moveSelection d sb se s) = bottomMargin s"
  "scrolledLines (moveSelection d sb se s) = scrolledLines s"
  "screenLines (moveSelection d sb se s) = screenLines s"
  "lineProperties (moveSelection d sb se s) = lineProperties s"
  "currentForeground (moveSelection d sb se s) = currentForeground s"
  "currentBackground (moveSelection d sb se s) = currentBackground s"
  by (simp_all add: moveSelection_def Let_def)

lemma moveImage_fields:
  assumes "moveImage dest sb se s = Some s'"
  shows "history s' = history s" and "columns s' = columns s" and "lines s' = lines s"
    and "topMargin s' = topMargin s" and "bottomMargin s' = bottomMargin s"
    and "scrolledLines s' = scrolledLines s"
    and "length (screenLines s') = length (screenLines s)"
    and "length (lineProperties s') = length (lineProperties s)"
    and "currentForeground s' = currentForeground s"
    and "currentBackground s' = currentBackground s"
proof -
  from assms have "s' = moveSelection dest sb se
      (moveLastPos dest sb (cdiv (se - sb) (columns s))
         (moveLines dest sb (cdiv (se - sb) (columns s)) (cdiv dest (columns s))
            (cdiv sb (columns s)) s))"
    by (simp add: moveImage_def Let_def split: if_splits)
  then show "history s' = history s" and "columns s' = columns s" and "lines s' = lines s"
    and "topMargin s' = topMargin s" and "bottomMargin s' = bottomMargin s"
    and "scrolledLines s' = scrolledLines s"
    and "length (screenLines s') = length (screenLines s)"
    and "length (lineProperties s') = length (lineProperties s)"
    and "currentForeground s' = currentForeground s"
    and "currentBackground s' = currentBackground s"
    by simp_all
qed

lemma clearLine_fields [simp]:
  "history (clearLine D a b t bt ch df y s) = history s"
  "columns (clearLine D a b t bt ch df y s) = columns s"
  "lines (clearLine D a b t bt ch df y s) = lines s"
  "topMargin (clearLine D a b t bt ch df y s) = topMargin s"
  "bottomMargin (clearLine D a b t bt ch df y s) = bottomMargin s"
  "scrolledLines (clearLine D a b t bt ch df y s) = scrolledLines s"
  "length (screenLines (clearLine D a b t bt ch df y s)) = length (screenLines s)"
  "length (lineProperties (clearLine D a b t bt ch df y s)) = length (lineProperties s)"
  by (simp_all add: clearLine_def Let_def)

lemma foldl_clearLine_fields [simp]:
  "history (foldl (\<lambda>t y. clearLine D a b tp bt ch df y t) s ys) = history s"
  "columns (foldl (\<lambda>t y. clearLine D a b tp bt ch df y t) s ys) = columns s"
  "lines (foldl (\<lambda>t y. clearLine D a b tp bt ch df y t) s ys) = lines s"
  "topMargin (foldl (\<lambda>t y. clearLine D a b tp bt ch df y t) s ys) = topMargin s"
  "bottomMargin (foldl (\<lambda>t y. clearLine D a b tp bt ch df y t) s ys) = bottomMargin s"
  "scrolledLines (foldl (\<lambda>t y. clearLine D a b tp bt ch df y t) s ys) = scrolledLines s"
  "length (screenLines (foldl (\<lambda>t y. clearLine D a b tp bt ch df y t) s ys))
     = length (screenLines s)"
  "length (lineProperties (foldl (\<lambda>t y. clearLine D a b tp bt ch df y t) s ys))
     = length (lineProperties s)"
  by (induction ys arbitrary: s) simp_all

lemma clearImage_fields:
  assumes "clearImage D loca loce c s = Some s'"
  shows "history s' = history s" and "columns s' = columns s" and "lines s' = lines s"
    and "topMargin s' = topMargin s" and "bottomMargin s' = bottomMargin s"
    and "scrolledLines s' = scrolledLines s"
    and "length (screenLines s') = length (screenLines s)"
    and "length (lineProperties s') = length (lineProperties s)"
  using assms by (auto simp: clearImage_def Let_def split: if_splits)

lemma histSelection_fields [simp]:
  "history (histSelection a b s) = history s"
  "columns (histSelection a b s) = columns s"
  "lines (histSelection a b s) = lines s"
  "topMargin (histSelection a b s) = topMargin s"
  "bottomMargin (histSelection a b s) = bottomMargin s"
  "scrolledLines (histSelection a b s) = scrolledLines s"
  "screenLines (histSelection a b s) = screenLines s"
  "lineProperties (histSelection a b s) = lineProperties s"
  by (simp_all add: histSelection_def Let_def clearSelection_def)

lemma wf_screen_nonempty:
  "wf_screen s \<Longrightarrow> screenLines s \<noteq> [] \<and> lineProperties s \<noteq> []"
  by (auto simp: wf_screen_def)

lemma wf_screen_cong:
  "wf_screen s \<Longrightarrow> columns t = columns s \<Longrightarrow> lines t = lines s \<Longrightarrow>
   topMargin t = topMargin s \<Longrightarrow> bottomMargin t = bottomMargin s \<Longrightarrow>
   length (screenLines t) = length (screenLines s) \<Longrightarrow>
   length (lineProperties t) = length (lineProperties s) \<Longrightarrow> wf_screen t"
  by (simp add: wf_screen_def)

lemma addHistLine_Some:
  assumes "wf_screen s"
  shows "\<exists>s'. addHistLine D s = Some s' \<and> wf_screen s' \<and> topMargin s' = topMargin s \<and>
           bottomMargin s' = bottomMargin s \<and>
           history s' =
             (if hasScroll (history s)
              then history_append (history s) (screenLines s ! 0)
                     (lineProperties s ! 0 AND LINE_WRAPPED D \<noteq> 0)
              else history s)"
proof -
  have ne: "screenLines s \<noteq> []" "lineProperties s \<noteq> []"
    using wf_screen_nonempty [OF assms] by simp_all
  show ?thesis
    using ne assms
    by (auto simp: addHistLine_def Let_def wf_screen_def)
qed

lemma rows_between:
  assumes "0 < c" and "a \<le> b + 1"
  shows "cdiv ((b * c + c) - (a * c + 0)) c = b + 1 - a"
proof -
  have "(b * c + c) - (a * c + 0) = (b + 1 - a) * c + 0"
    by (simp add: algebra_simps)
  then show ?thesis
    using cdiv_rows [of "b + 1 - a" 0 c] assms by simp
qed

lemma rows_mono: "0 < (c::int) \<Longrightarrow> a \<le> b + 1 \<Longrightarrow> a * c + 0 \<le> b * c + c"
proof -
  assume c: "0 < c" and ab: "a \<le> b + 1"
  have "a * c \<le> (b + 1) * c"
    using ab c by (intro mult_right_mono) simp_all
  then show ?thesis by (simp add: algebra_simps)
qed

lemma moveImage_up_Some:
  assumes wf: "wf_screen s" and fr: "0 \<le> from" and n1: "1 \<le> n1"
    and fit: "from + n1 \<le> bottomMargin s + 1"
  shows "\<exists>s'. moveImage (loc s 0 from) (loc s 0 (from + n1))
                 (loc s (columns s) (bottomMargin s)) s = Some s'"
proof -
  let ?c = "columns s" and ?b = "bottomMargin s"
  have c: "0 < ?c" and b: "?b < lines s"
    and len: "int (length (screenLines s)) = lines s + 1"
       "int (length (lineProperties s)) = lines s + 1"
    using wf by (simp_all add: wf_screen_def)
  have le: "(from + n1) * ?c + 0 \<le> ?b * ?c + ?c"
    using c fit by (rule rows_mono)
  have l: "cdiv ((?b * ?c + ?c) - ((from + n1) * ?c + 0)) ?c = ?b + 1 - (from + n1)"
    using c fit by (rule rows_between)
  have d: "cdiv (from * ?c + 0) ?c = from"
    using fr c by (intro cdiv_rows) simp_all
  have sy: "cdiv ((from + n1) * ?c + 0) ?c = from + n1"
    using fr n1 c by (intro cdiv_rows) simp_all
  show ?thesis
    using c le b len fr n1 fit
    by (simp add: moveImage_def loc_def Let_def l d sy del: add_0_right add.right_neutral)
qed

lemma clearImage_rows_Some:
  assumes wf: "wf_screen s" and tp0: "0 \<le> tp" and bt0: "btm \<le> bottomMargin s"
    and tb: "0 \<le> btm"
  shows "\<exists>s'. clearImage D (loc s 0 tp) (loc s (columns s - 1) btm) c s = Some s'"
proof -
  let ?c = "columns s"
  have c: "0 < ?c" and b: "bottomMargin s < lines s"
    and len: "int (length (screenLines s)) = lines s + 1"
       "int (length (lineProperties s)) = lines s + 1"
    using wf by (simp_all add: wf_screen_def)
  have t: "cdiv (tp * ?c + 0) ?c = tp"
    using tp0 c by (intro cdiv_rows) simp_all
  have tm: "cmod (tp * ?c + 0) ?c = 0"
    using tp0 c by (intro cmod_rows) simp_all
  have bt: "cdiv (btm * ?c + (?c - 1)) ?c = btm"
    using tb c by (intro cdiv_rows) simp_all
  show ?thesis
    using c b len bt0 tp0
    by (simp add: clearImage_def loc_def Let_def t tm bt del: add_0_right add.right_neutral)
qed

lemma scrollUp_Some:
  assumes wf: "wf_screen s" and fr: "0 \<le> from"
  shows "\<exists>s'. scrollUp D from n s = Some s' \<and> history s' = history s"
proof (cases "n \<le> 0 \<or> from > bottomMargin s")
  case True
  then show ?thesis by (auto simp: scrollUp_def)
next
  case False
  define n1 where "n1 = (if from + n > bottomMargin s then bottomMargin s + 1 - from else n)"
  define s1 where "s1 = s\<lparr>scrolledLines := scrolledLines s - n1,
      lastScrolledRegion := QRect 0 (topMargin s) (columns s - 1) (bottomMargin s - topMargin s)\<rparr>"
  have n1: "1 \<le> n1" "from + n1 \<le> bottomMargin s + 1"
    using False by (auto simp: n1_def)
  have wf1: "wf_screen s1"
    using wf by (simp add: wf_screen_def s1_def)
  have f1: "bottomMargin s1 = bottomMargin s" "columns s1 = columns s" "history s1 = history s"
    by (simp_all add: s1_def)
  have l1: "loc s1 = loc s"
    by (simp add: fun_eq_iff loc_def f1)
  obtain s2 where s2: "moveImage (loc s1 0 from) (loc s1 0 (from + n1))
      (loc s1 (columns s1) (bottomMargin s1)) s1 = Some s2"
    using moveImage_up_Some [OF wf1 fr n1(1)] n1(2) f1 by auto
  have f2: "bottomMargin s2 = bottomMargin s" "columns s2 = columns s" "history s2 = history s"
    using moveImage_fields [OF s2] f1 by simp_all
  have wf2: "wf_screen s2"
    using wf1 moveImage_fields [OF s2] by (auto intro: wf_screen_cong [of s1 s2])
  have "0 \<le> bottomMargin s2 - n1 + 1" "0 \<le> bottomMargin s2"
    using n1 fr f2 by simp_all
  then obtain s3 where s3: "clearImage D (loc s2 0 (bottomMargin s2 - n1 + 1))
      (loc s2 (columns s2 - 1) (bottomMargin s2)) 32 s2 = Some s3"
    using clearImage_rows_Some [OF wf2, of "bottomMargin s2 - n1 + 1" "bottomMargin s2" D 32]
    by auto
  have "history s3 = history s"
    using clearImage_fields(1) [OF s3] f2 by simp
  moreover have "scrollUp D from n s = Some s3"
    using False s2 s3 unfolding scrollUp_def n1_def [symmetric] Let_def s1_def [symmetric]
    by simp
  ultimately show ?thesis by simp
qed

lemma history_append_count:
  "hasScroll h \<Longrightarrow>
   (\<not> atCapacity h \<longrightarrow> histLines (history_append h cells w) = histLines h @ [(cells, w)] \<and>
      getLines (history_append h cells w) = getLines h + 1) \<and>
   (atCapacity h \<longrightarrow> histLines (history_append h cells w) = tl (histLines h @ [(cells, w)]) \<and>
      getLines (history_append h cells w) = getLines h)"
  by (cases h) (simp_all add: getLines_def)

text \<open>
  Claim C1. For a screen whose history store accepts lines, with the cursor on
  \<open>bottomMargin\<close>, \<open>index\<close> is \<open>scrollUp(1)\<close>, it returns, and the top line is retired
  into the history exactly when \<open>topMargin = 0\<close>: then the history is the old one with
  line \<open>0\<close> of the screen (and its wrapped flag) appended, so that the line count grows
  by one or, for a store at capacity, the oldest line is dropped and the count stays;
  with \<open>topMargin \<noteq> 0\<close> the history is unchanged.
\<close>

theorem index_retires_top_line:
  assumes "wf_screen s" and "hasScroll (history s)" and "cuY s = bottomMargin s"
  shows "\<exists>s'. index D s = Some s' \<and> scrollUp1 D 1 s = Some s' \<and>
    (topMargin s = 0 \<longrightarrow>
       history s' = history_append (history s) (screenLines s ! 0)
                      (lineProperties s ! 0 AND LINE_WRAPPED D \<noteq> 0) \<and>
       (if atCapacity (history s)
        then histLines (history s') =
               tl (histLines (history s) @
                     [(screenLines s ! 0, lineProperties s ! 0 AND LINE_WRAPPED D \<noteq> 0)]) \<and>
             getLines (history s') = getLines (history s)
        else histLines (history s') =
               histLines (history s) @
                 [(screenLines s ! 0, lineProperties s ! 0 AND LINE_WRAPPED D \<noteq> 0)] \<and>
             getLines (history s') = getLines (history s) + 1)) \<and>
    (topMargin s \<noteq> 0 \<longrightarrow> history s' = history s)"
proof (cases "topMargin s = 0")
  case True
  obtain s1 where s1: "addHistLine D s = Some s1" and wf1: "wf_screen s1"
    and t1: "topMargin s1 = topMargin s"
    and h1: "history s1 = history_append (history s) (screenLines s ! 0)
                      (lineProperties s ! 0 AND LINE_WRAPPED D \<noteq> 0)"
    using addHistLine_Some [OF assms(1), of D] assms(2) by auto
  obtain s2 where s2: "scrollUp D (topMargin s1) 1 s1 = Some s2" and h2: "history s2 = history s1"
    using scrollUp_Some [OF wf1, of "topMargin s1" D 1] t1 True by auto
  have "scrollUp1 D 1 s = Some s2"
    using True s1 s2 by (simp add: scrollUp1_def)
  moreover have "index D s = scrollUp1 D 1 s"
    using assms(3) by (simp add: index_def)
  ultimately show ?thesis
    using True h1 h2 history_append_count [OF assms(2)] by simp
next
  case False
  have "0 \<le> topMargin s"
    using assms(1) by (simp add: wf_screen_def)
  then obtain s2 where s2: "scrollUp D (topMargin s) 1 s = Some s2" and h2: "history s2 = history s"
    using scrollUp_Some [OF assms(1), of "topMargin s" D 1] by auto
  have "scrollUp1 D 1 s = Some s2"
    using False s2 by (simp add: scrollUp1_def)
  moreover have "index D s = scrollUp1 D 1 s"
    using assms(3) by (simp add: index_def)
  ultimately show ?thesis
    using False h2 by simp
qed

lemma exampleScreen_fields:
  "wf_screen exampleScreen"
  "hasScroll (history exampleScreen)"
  "cuY exampleScreen = bottomMargin exampleScreen"
  "topMargin exampleScreen = 0"
  "history exampleScreen = HistoryScrollFile []"
  "screenLines exampleScreen ! 0 = [exampleCell 65, exampleCell 66]"
  "(lineProperties exampleScreen ! 0 AND LINE_WRAPPED exampleDecls \<noteq> 0) = True"
  by (simp_all add: exampleScreen_def wf_screen_def exampleDecls_def)

theorem index_retires_top_line_witness:
  "wf_screen exampleScreen \<and> hasScroll (history exampleScreen) \<and>
   cuY exampleScreen = bottomMargin exampleScreen \<and> topMargin exampleScreen = 0 \<and>
   (\<exists>s'. index exampleDecls exampleScreen = Some s' \<and>
      history s' = HistoryScrollFile [([exampleCell 65, exampleCell 66], True)]) \<and>
   wf_screen (exampleScreen\<lparr>topMargin := 1\<rparr>) \<and>
   (\<exists>s'. index exampleDecls (exampleScreen\<lparr>topMargin := 1\<rparr>) = Some s' \<and>
      history s' = HistoryScrollFile [])"
proof -
  let ?t = "exampleScreen\<lparr>topMargin := 1\<rparr>"
  have a: "\<exists>s'. index exampleDecls exampleScreen = Some s' \<and>
      history s' = HistoryScrollFile [([exampleCell 65, exampleCell 66], True)]"
    using index_retires_top_line [OF exampleScreen_fields(1-3), of exampleDecls]
    by (simp add: exampleScreen_fields) blast
  have wt: "wf_screen ?t"
    using exampleScreen_fields(1) by (simp add: wf_screen_def exampleScreen_def)
  have ht: "hasScroll (history ?t)" "cuY ?t = bottomMargin ?t"
    using exampleScreen_fields by simp_all
  have b: "\<exists>s'. index exampleDecls ?t = Some s' \<and> history s' = HistoryScrollFile []"
    using index_retires_top_line [OF wt ht, of exampleDecls]
    by (simp add: exampleScreen_fields) blast
  show ?thesis
    using a b wt exampleScreen_fields by simp
qed

lemma scrollUp_scrolledLines:
  assumes "scrollUp D from n s = Some s'" and "0 < n" and "from \<le> bottomMargin s"
  shows "scrolledLines s' =
    scrolledLines s - (if from + n > bottomMargin s then bottomMargin s + 1 - from else n)"
proof -
  define n1 where "n1 = (if from + n > bottomMargin s then bottomMargin s + 1 - from else n)"
  define s1 where "s1 = s\<lparr>scrolledLines := scrolledLines s - n1,
      lastScrolledRegion := QRect 0 (topMargin s) (columns s - 1) (bottomMargin s - topMargin s)\<rparr>"
  from assms obtain s2 where
    s2: "moveImage (loc s1 0 from) (loc s1 0 (from + n1))
           (loc s1 (columns s1) (bottomMargin s1)) s1 = Some s2"
    and s3: "clearImage D (loc s2 0 (bottomMargin s2 - n1 + 1))
           (loc s2 (columns s2 - 1) (bottomMargin s2)) 32 s2 = Some s'"
    unfolding scrollUp_def n1_def [symmetric] Let_def s1_def [symmetric]
    by (auto split: option.splits if_splits)
  have "scrolledLines s' = scrolledLines s2"
    using clearImage_fields(6) [OF s3] .
  also have "\<dots> = scrolledLines s1"
    using moveImage_fields(6) [OF s2] .
  finally show ?thesis
    by (simp add: s1_def n1_def)
qed

lemma scrollDown_scrolledLines:
  assumes "scrollDown D from n s = Some s'"
  shows "scrolledLines s' = scrolledLines s + n"
proof -
  define s1 where "s1 = s\<lparr>scrolledLines := scrolledLines s + n\<rparr>"
  define n1 where "n1 = (if from + n > bottomMargin s1 then bottomMargin s1 - from else n)"
  have k: "scrolledLines s1 = scrolledLines s + n"
    by (simp add: s1_def)
  show ?thesis
  proof (cases "n \<le> 0 \<or> from > bottomMargin s1")
    case True
    then have "s' = s1"
      using assms unfolding scrollDown_def Let_def s1_def [symmetric]
      by (auto split: if_splits)
    then show ?thesis using k by simp
  next
    case False
    then obtain s2 where
      s2: "moveImage (loc s1 0 (from + n1)) (loc s1 0 from)
             (loc s1 (columns s1 - 1) (bottomMargin s1 - n1)) s1 = Some s2"
      and s3: "clearImage D (loc s2 0 from) (loc s2 (columns s2 - 1) (from + n1 - 1)) 32 s2
             = Some s'"
      using assms unfolding scrollDown_def Let_def s1_def [symmetric] n1_def [symmetric]
      by (auto split: option.splits if_splits)
    have "scrolledLines s' = scrolledLines s2"
      using clearImage_fields(6) [OF s3] .
    also have "\<dots> = scrolledLines s1"
      using moveImage_fields(6) [OF s2] .
    finally show ?thesis using k by simp
  qed
qed

text \<open>
  Claim C2 at a concrete input: a screen of three lines with \<open>bottomMargin = 2\<close> and
  \<open>scrollDown(0, 5)\<close>. The request is clamped to two lines (lines \<open>0\<close> and \<open>1\<close> are
  vacated and filled with blanks in the current colours, line \<open>2\<close> receives the old line
  \<open>0\<close>), and \<open>scrolledLines\<close> grows by the five lines asked for, not by the clamped two;
  \<open>scrollUp(0, 5)\<close> on the same screen is clamped to three lines and lowers the counter
  by three.
\<close>

theorem scrollDown_counts_unclamped:
  "map_option scrolledLines (scrollDown exampleDecls 0 5 exampleScreen) = Some 5 \<and>
   map_option screenLines (scrollDown exampleDecls 0 5 exampleScreen) =
     Some [replicate 4
             \<lparr>character = 32, foregroundColor = currentForeground exampleScreen,
              backgroundColor = currentBackground exampleScreen,
              rendition = DEFAULT_RENDITION exampleDecls, isRealCharacter = False\<rparr>,
           replicate 4
             \<lparr>character = 32, foregroundColor = currentForeground exampleScreen,
              backgroundColor = currentBackground exampleScreen,
              rendition = DEFAULT_RENDITION exampleDecls, isRealCharacter = False\<rparr>,
           [exampleCell 65, exampleCell 66], []] \<and>
   map_option scrolledLines (scrollUp exampleDecls 0 5 exampleScreen) = Some (- 3)"
  by code_simp

section \<open>The window's current line\<close>

lemma std_clamp_range: "lo \<le> hi \<Longrightarrow> lo \<le> std_clamp v lo hi \<and> std_clamp v lo hi \<le> hi"
  by (simp add: std_clamp_def)

lemma currentLine_range:
  "0 \<le> currentLine w sc \<and> currentLine w sc \<le> max 0 (lineCount sc - windowLines w)"
  unfolding currentLine_def by (rule std_clamp_range) simp

text \<open>
  Claim C8. For every window state, and so after every run of \<open>scrollTo\<close>, \<open>scrollBy\<close>,
  \<open>setWindowLines\<close> and \<open>notifyOutputChanged\<close> against screens that change in between,
  \<open>currentLine()\<close> read against any screen lies in
  \<open>[0, max(0, lineCount - windowLines)]\<close>.
\<close>

theorem currentLine_clamped:
  "(0 \<le> currentLine w sc \<and> currentLine w sc \<le> max 0 (lineCount sc - windowLines w)) \<and>
   (\<forall>w'. runOps ops w = Some w' \<longrightarrow>
      0 \<le> currentLine w' sc \<and> currentLine w' sc \<le> max 0 (lineCount sc - windowLines w'))"
  using currentLine_range by blast

theorem currentLine_clamped_witness:
  "runOps exampleOps exampleWindow
     = Some \<lparr>m_windowLines = 1, m_currentLine = 4, m_currentResultLine = - 1,
          m_trackOutput = True, m_scrollCount = 4, m_bufferNeedsUpdate = True\<rparr> \<and>
   currentLine \<lparr>m_windowLines = 1, m_currentLine = 4, m_currentResultLine = - 1,
          m_trackOutput = True, m_scrollCount = 4, m_bufferNeedsUpdate = True\<rparr> exampleScreen
     = 2 \<and>
   max 0 (lineCount exampleScreen - 1) = 2"
proof -
  let ?w = "\<lparr>m_windowLines = 1, m_currentLine = 4, m_currentResultLine = - 1,
          m_trackOutput = True, m_scrollCount = 4, m_bufferNeedsUpdate = True\<rparr>"
  have r: "runOps exampleOps exampleWindow = Some ?w"
    by code_simp
  have m: "max 0 (lineCount exampleScreen - windowLines ?w) = 2"
    by code_simp
  have "0 \<le> currentLine ?w exampleScreen \<and>
      currentLine ?w exampleScreen \<le> max 0 (lineCount exampleScreen - windowLines ?w)"
    using currentLine_clamped [of exampleWindow exampleScreen exampleOps] r by blast
  moreover have "currentLine ?w exampleScreen = 2"
    by code_simp
  ultimately show ?thesis
    using r m by (simp add: windowLines_def)
qed

section \<open>The history file\<close>

lemma sint_add_in_range:
  fixes a b :: "64 word"
  assumes "0 \<le> sint a" and "0 \<le> sint b" and "sint a + sint b < 2 ^ 63"
  shows "sint (a + b) = sint a + sint b"
proof -
  have "sint (a + b) = signed_take_bit (LENGTH(64) - 1) (sint a + sint b)"
    by (rule sint_word_add)
  also have "\<dots> = signed_take_bit 63 (sint a + sint b)"
    by simp
  also have "\<dots> = sint a + sint b"
    using assms by (intro signed_take_bit_int_eq_self) simp_all
  finally show ?thesis .
qed

lemma get_guard:
  "sint loc' < 0 \<or> sint size' < 0 \<or> sint (len h) < sint (loc' + size') \<Longrightarrow>
   get MT io buf size' loc' h = (h, buf, [''getHist(...): invalid args.''])"
  by (auto simp: get_def len_def)

text \<open>
  Claim C7, amended. Whenever the guard of \<open>get\<close> holds as the program evaluates it, with
  \<open>loc + size\<close> added in \<open>qint64\<close>, and so whenever \<open>loc < 0\<close>, \<open>size < 0\<close> or
  \<open>loc + size > len()\<close> for a sum that does not exceed the largest \<open>qint64\<close>, \<open>get\<close>
  reports the error and returns at once: the whole state (the stored length and the file
  among it) and the caller's buffer are as before. When the seek or the write fails,
  \<open>add\<close> reports it and returns with the stored length and the bytes of the file as
  before.
\<close>

theorem historyFile_errors:
  "(sint loc' < 0 \<or> sint size' < 0 \<or> sint (len h) < sint (loc' + size') \<longrightarrow>
      get MT io buf size' loc' h = (h, buf, [''getHist(...): invalid args.''])) \<and>
   (sint loc' < 0 \<or> sint size' < 0 \<or>
    (sint (len h) < sint loc' + sint size' \<and> sint loc' + sint size' < 2 ^ 63) \<longrightarrow>
      get MT io buf size' loc' h = (h, buf, [''getHist(...): invalid args.''])) \<and>
   (\<not> seek_ok io \<or> sint (write_rc io) < 0 \<longrightarrow>
      len (fst (add io buf count h)) = len h \<and>
      tmpFile (fst (add io buf count h)) = tmpFile h \<and>
      snd (add io buf count h) \<noteq> [])"
proof (intro conjI impI)
  assume "sint loc' < 0 \<or> sint size' < 0 \<or> sint (len h) < sint (loc' + size')"
  then show "get MT io buf size' loc' h = (h, buf, [''getHist(...): invalid args.''])"
    by (rule get_guard)
next
  assume a: "sint loc' < 0 \<or> sint size' < 0 \<or>
    (sint (len h) < sint loc' + sint size' \<and> sint loc' + sint size' < 2 ^ 63)"
  show "get MT io buf size' loc' h = (h, buf, [''getHist(...): invalid args.''])"
  proof (cases "sint loc' < 0 \<or> sint size' < 0")
    case True
    then show ?thesis by (intro get_guard) blast
  next
    case False
    then have b: "sint (len h) < sint loc' + sint size'" "sint loc' + sint size' < 2 ^ 63"
      using a by blast+
    have "sint (loc' + size') = sint loc' + sint size'"
      using False b(2) by (intro sint_add_in_range) simp_all
    then show ?thesis
      using b(1) by (intro get_guard) simp
  qed
next
  assume "\<not> seek_ok io \<or> sint (write_rc io) < 0"
  then show "len (fst (add io buf count h)) = len h"
    and "tmpFile (fst (add io buf count h)) = tmpFile h"
    and "snd (add io buf count h) \<noteq> []"
    by (auto simp: add_def len_def unmap_def Let_def)
qed

theorem historyFile_errors_witness:
  "sint (len exampleFile) < sint (3 :: 64 word) + sint (2 :: 64 word) \<and>
   get (- 1000) failingSeek [9, 9] 2 3 exampleFile
     = (exampleFile, [9, 9], [''getHist(...): invalid args.'']) \<and>
   len (fst (add failingSeek [7, 8] 2 exampleFile)) = 4 \<and>
   tmpFile (fst (add failingWrite [7, 8] 2 exampleFile)) = [1, 2, 3, 4]"
proof -
  have h: "sint (len exampleFile) < sint (3 :: 64 word) + sint (2 :: 64 word)"
    "sint (3 :: 64 word) + sint (2 :: 64 word) < 2 ^ 63"
    "\<not> seek_ok failingSeek" "sint (write_rc failingWrite) < 0"
    "len exampleFile = 4" "tmpFile exampleFile = [1, 2, 3, 4]"
    by (simp_all add: exampleFile_def failingSeek_def failingWrite_def len_def)
  show ?thesis
    using historyFile_errors [where loc' = 3 and size' = 2 and h = exampleFile
        and MT = "- 1000" and io = failingSeek and buf = "[9, 9]" and count = 2]
      historyFile_errors [where loc' = 3 and size' = 2 and h = exampleFile
        and MT = "- 1000" and io = failingSeek and buf = "[7, 8]" and count = 2]
      historyFile_errors [where loc' = 3 and size' = 2 and h = exampleFile
        and MT = "- 1000" and io = failingWrite and buf = "[7, 8]" and count = 2]
      h
    by simp
qed

text \<open>
  Claim C7 as stated fails where \<open>loc + size\<close> leaves \<open>qint64\<close>: with \<open>loc\<close> the largest
  \<open>qint64\<close> and \<open>size = 1\<close> on a file of four bytes, \<open>loc + size\<close> exceeds \<open>len()\<close> but
  the sum computed by the guard is negative, so \<open>get\<close> does not return there: it lowers
  \<open>_readWriteBalance\<close> and goes on to seek.
\<close>

theorem historyFile_get_overflow_counterexample:
  "sint (len exampleFile) < sint (9223372036854775807 :: 64 word) + sint (1 :: 64 word) \<and>
   get (- 1000) failingSeek [9, 9] 1 9223372036854775807 exampleFile
     = (exampleFile\<lparr>readWriteBalance := - 1\<rparr>, [9, 9], [''HistoryFile::get.seek'']) \<and>
   get (- 1000) failingSeek [9, 9] 1 9223372036854775807 exampleFile
     \<noteq> (exampleFile, [9, 9], [''getHist(...): invalid args.''])"
  by code_simp

section \<open>Hotspot lookup\<close>

lemma foldl_insert_spot:
  "distinct ls \<Longrightarrow>
   foldl (\<lambda>h line. h(line := spot # h line)) h ls line
     = (if line \<in> set ls then spot # h line else h line)"
  by (induction ls arbitrary: h) auto

lemma hotspots_addHotSpot:
  "hotspots (addHotSpot spot f) line =
     (if startLine spot \<le> line \<and> line \<le> endLine spot then spot # hotspots f line
      else hotspots f line)"
  by (simp add: addHotSpot_def foldl_insert_spot)

lemma hotspots_foldl_addHotSpot:
  "hotspots (foldl (\<lambda>f spot. addHotSpot spot f) f0 spots) line =
     rev (filter (\<lambda>s. startLine s \<le> line \<and> line \<le> endLine s) spots) @ hotspots f0 line"
  by (induction spots arbitrary: f0) (simp_all add: hotspots_addHotSpot)

lemma hotspots_builtFilter:
  "hotspots (builtFilter spots g) line =
     rev (filter (\<lambda>s. startLine s \<le> line \<and> line \<le> endLine s) spots)"
  by (simp add: builtFilter_def hotspots_foldl_addHotSpot reset_def)

lemma hotspotList_foldl_addHotSpot:
  "hotspotList (foldl (\<lambda>f spot. addHotSpot spot f) f0 spots) = hotspotList f0 @ spots"
  by (induction spots arbitrary: f0) (simp_all add: addHotSpot_def)

lemma hotspotList_builtFilter: "hotspotList (builtFilter spots g) = spots"
  by (simp add: builtFilter_def hotspotList_foldl_addHotSpot reset_def)

lemma find_Some_member: "find P xs = Some x \<Longrightarrow> x \<in> set xs \<and> P x"
  by (induction xs) (auto split: if_splits)

lemma hotSpotAt_Some:
  assumes "hotSpotAt (builtFilter spots g) line column = Some h"
  shows "h \<in> set spots \<and> startLine h \<le> line \<and> line \<le> endLine h \<and> inside h line column"
proof -
  from assms have "find (\<lambda>spot. inside spot line column)
      (rev (filter (\<lambda>s. startLine s \<le> line \<and> line \<le> endLine s) spots)) = Some h"
    by (simp add: hotSpotAt_def hotspots_builtFilter)
  then have "h \<in> set (rev (filter (\<lambda>s. startLine s \<le> line \<and> line \<le> endLine s) spots))"
    and "inside h line column"
    by (auto dest: find_Some_member)
  then show ?thesis by simp
qed

lemma hotSpotAt_middle:
  assumes "h \<in> set spots" and "startLine h < line" and "line < endLine h"
  shows "inside h line column"
    and "\<exists>h'. hotSpotAt (builtFilter spots g) line column = Some h'"
    and "(\<forall>s\<in>set spots. s \<noteq> h \<longrightarrow> \<not> (startLine s \<le> line \<and> line \<le> endLine s))
           \<Longrightarrow> hotSpotAt (builtFilter spots g) line column = Some h"
proof -
  let ?cover = "rev (filter (\<lambda>s. startLine s \<le> line \<and> line \<le> endLine s) spots)"
  show i: "inside h line column"
    using assms by (simp add: inside_def)
  have m: "h \<in> set ?cover"
    using assms by simp
  have "find (\<lambda>spot. inside spot line column) ?cover \<noteq> None"
    using m i by (auto simp: find_None_iff)
  then show "\<exists>h'. hotSpotAt (builtFilter spots g) line column = Some h'"
    by (auto simp: hotSpotAt_def hotspots_builtFilter)
  assume only: "\<forall>s\<in>set spots. s \<noteq> h \<longrightarrow> \<not> (startLine s \<le> line \<and> line \<le> endLine s)"
  obtain h' where h': "hotSpotAt (builtFilter spots g) line column = Some h'"
    using \<open>\<exists>h'. hotSpotAt (builtFilter spots g) line column = Some h'\<close> by blast
  then have "h' \<in> set spots" "startLine h' \<le> line" "line \<le> endLine h'"
    using hotSpotAt_Some [OF h'] by simp_all
  then have "h' = h" using only by blast
  then show "hotSpotAt (builtFilter spots g) line column = Some h"
    using h' by simp
qed

text \<open>
  Claim C10. In a filter that holds the hotspots \<open>spots\<close>, \<open>hotSpotAt(line, column)\<close>
  returns a hotspot \<open>h\<close> only if \<open>h\<close> is one of them, \<open>startLine h \<le> line \<le> endLine h\<close>,
  on its start line \<open>column \<ge> startColumn h\<close> and on its end line
  \<open>column \<le> endColumn h\<close>. On a line strictly between the start and the end line of a
  hotspot \<open>h\<close> every column passes the test of \<open>h\<close>: a hotspot is returned for every
  column, and it is \<open>h\<close> when no other hotspot covers the line.
\<close>

theorem hotSpotAt_band:
  "(\<forall>h. hotSpotAt (builtFilter spots g) line column = Some h \<longrightarrow>
      h \<in> set spots \<and> startLine h \<le> line \<and> line \<le> endLine h \<and>
      (line = startLine h \<longrightarrow> startColumn h \<le> column) \<and>
      (line = endLine h \<longrightarrow> column \<le> endColumn h)) \<and>
   (\<forall>h\<in>set spots. startLine h < line \<and> line < endLine h \<longrightarrow>
      inside h line column \<and>
      (\<exists>h'. hotSpotAt (builtFilter spots g) line column = Some h') \<and>
      ((\<forall>s\<in>set spots. s \<noteq> h \<longrightarrow> \<not> (startLine s \<le> line \<and> line \<le> endLine s)) \<longrightarrow>
         hotSpotAt (builtFilter spots g) line column = Some h))"
proof (intro conjI allI ballI impI)
  fix h
  assume "hotSpotAt (builtFilter spots g) line column = Some h"
  from hotSpotAt_Some [OF this]
  show "h \<in> set spots" "startLine h \<le> line" "line \<le> endLine h"
    "line = startLine h \<Longrightarrow> startColumn h \<le> column"
    "line = endLine h \<Longrightarrow> column \<le> endColumn h"
    by (auto simp: inside_def)
next
  fix h
  assume "h \<in> set spots" and "startLine h < line \<and> line < endLine h"
  then show "inside h line column"
    and "\<exists>h'. hotSpotAt (builtFilter spots g) line column = Some h'"
    using hotSpotAt_middle(1,2) [of h spots line] by blast+
next
  fix h
  assume "h \<in> set spots" and "startLine h < line \<and> line < endLine h"
    and "\<forall>s\<in>set spots. s \<noteq> h \<longrightarrow> \<not> (startLine s \<le> line \<and> line \<le> endLine s)"
  then show "hotSpotAt (builtFilter spots g) line column = Some h"
    using hotSpotAt_middle(3) [of h spots line] by blast
qed

theorem hotSpotAt_band_witness:
  "hotSpotAt (builtFilter [exampleSpot] exampleFilter) 1 100 = Some exampleSpot \<and>
   hotSpotAt (builtFilter [exampleSpot] exampleFilter) 1 0 = Some exampleSpot \<and>
   hotSpotAt (builtFilter [exampleSpot] exampleFilter) 0 5 = Some exampleSpot \<and>
   hotSpotAt (builtFilter [exampleSpot] exampleFilter) 0 4 = None \<and>
   hotSpotAt (builtFilter [exampleSpot] exampleFilter) 2 4 = None \<and>
   startLine exampleSpot < 1 \<and> 1 < endLine exampleSpot"
proof -
  have a: "exampleSpot \<in> set [exampleSpot]" by simp
  have b: "startLine exampleSpot < 1 \<and> 1 < endLine exampleSpot"
    by (simp add: exampleSpot_def)
  have c: "\<forall>s\<in>set [exampleSpot]. s \<noteq> exampleSpot \<longrightarrow>
      \<not> (startLine s \<le> 1 \<and> 1 \<le> endLine s)" by simp
  have "hotSpotAt (builtFilter [exampleSpot] exampleFilter) 1 100 = Some exampleSpot"
    using hotSpotAt_band [of "[exampleSpot]" exampleFilter 1 100] a b c by blast
  moreover have "hotSpotAt (builtFilter [exampleSpot] exampleFilter) 1 0 = Some exampleSpot"
    using hotSpotAt_band [of "[exampleSpot]" exampleFilter 1 0] a b c by blast
  moreover have "hotSpotAt (builtFilter [exampleSpot] exampleFilter) 0 5 = Some exampleSpot"
    "hotSpotAt (builtFilter [exampleSpot] exampleFilter) 0 4 = None"
    "hotSpotAt (builtFilter [exampleSpot] exampleFilter) 2 4 = None"
    by code_simp+
  ultimately show ?thesis using b by simp
qed

section \<open>The scan of a regular-expression filter\<close>

lemma addHotSpot_buffer [simp]:
  "buffer (addHotSpot spot f) = buffer f"
  "linePositions (addHotSpot spot f) = linePositions f"
  "hotspotList (addHotSpot spot f) = hotspotList f @ [spot]"
  by (simp_all add: addHotSpot_def)









section \<open>The HTML decoder\<close>

lemma length_spanMarkups [simp]: "length (spanMarkups D E d cells) = length cells"
  by (induction cells arbitrary: d) simp_all

lemma length_cellTexts [simp]: "length (cellTexts D E prev cells) = length cells"
  by (induction cells arbitrary: prev) simp_all

lemma cellTexts_nth:
  "i < length cells \<Longrightarrow>
   cellTexts D E prev cells ! i =
     (if isSpace D (cells ! i) \<and> (if i = 0 then prev else isSpace D (cells ! (i - 1)))
      then Latin1 ''&#160;'' else emitChar D E (cells ! i))"
proof (induction cells arbitrary: prev i)
  case Nil
  then show ?case by simp
next
  case (Cons c cs)
  show ?case
  proof (cases i)
    case 0
    then show ?thesis by simp
  next
    case (Suc j)
    then have "j < length cs" using Cons.prems by simp
    from Cons.IH [OF this, of "isSpace D c"] Suc show ?thesis
      by (cases j) simp_all
  qed
qed

lemma decodeChar_foldl:
  "0 \<le> sc \<Longrightarrow>
   \<exists>sc'. 0 \<le> sc' \<and>
     foldl (\<lambda>st c. decodeChar D E c st) (text', sc, d) cells =
       (text' @ concat (map2 (@) (spanMarkups D E d cells) (cellTexts D E (0 < sc) cells)),
        sc', spanState D E d cells)"
proof (induction cells arbitrary: text' sc d)
  case Nil
  then show ?case by simp
next
  case (Cons c cs)
  obtain markup d1 where sw: "spanSwitch D E c d = (markup, d1)"
    by (cases "spanSwitch D E c d") auto
  let ?sc1 = "if isSpace D c then sc + 1 else 0"
  let ?piece = "if isSpace D c \<and> 0 < sc then Latin1 ''&#160;'' else emitChar D E c"
  have lt2: "(?sc1 < 2) = (\<not> (isSpace D c \<and> 0 < sc))"
    using Cons.prems by auto
  have step: "decodeChar D E c (text', sc, d) = (text' @ markup @ ?piece, ?sc1, d1)"
    using lt2 by (auto simp: decodeChar_def sw Let_def)
  have nonneg: "0 \<le> ?sc1"
    using Cons.prems by simp
  have prev: "(0 < ?sc1) = isSpace D c"
    using Cons.prems by simp
  from Cons.IH [OF nonneg, of "text' @ markup @ ?piece" d1]
  obtain sc' where "0 \<le> sc'"
    and "foldl (\<lambda>st c. decodeChar D E c st) (text' @ markup @ ?piece, ?sc1, d1) cs =
      ((text' @ markup @ ?piece) @
         concat (map2 (@) (spanMarkups D E d1 cs) (cellTexts D E (0 < ?sc1) cs)),
       sc', spanState D E d1 cs)"
    by blast
  then show ?case
    using step sw prev by (intro exI [of _ sc']) simp
qed

lemma concat_map2_nth:
  "length xs = length ys \<Longrightarrow>
   concat (map2 (@) xs ys) = concat (map (\<lambda>i. xs ! i @ ys ! i) [0..<length xs])"
proof -
  assume l: "length xs = length ys"
  have "map2 (@) xs ys = map (\<lambda>i. xs ! i @ ys ! i) [0..<length xs]"
    using l by (intro nth_equalityI) simp_all
  then show ?thesis by simp
qed

text \<open>
  What \<open>decodeLine\<close> emits, for a decoder whose output stream is set and every row of
  cells: for each cell in order the span markup of the cell and then the cell's text, then
  the closing of an open span, and last \<open><br>\<close>. The text of a space cell that follows
  a space cell is \<open>&#160;\<close>, so of a run of consecutive space cells the first is emitted
  as any other cell and each further one as \<open>&#160;\<close>. The text of any other cell that
  holds a character (not the key of an extended character) is \<open>&lt;\<close> for \<open><\<close>,
  \<open>&gt;\<close> for \<open>>\<close>, \<open>&amp;\<close> for \<open>&\<close> and the character itself otherwise.
\<close>

theorem decodeLine_text:
  assumes "m_output d = Some out"
  shows "\<exists>d'. decodeLine D E cells d = Some d' \<and>
    m_output d' =
      Some (out @
        concat (map (\<lambda>i. spanMarkups D E d cells ! i @
                      (if isSpace D (cells ! i) \<and> 0 < i \<and> isSpace D (cells ! (i - 1))
                       then Latin1 ''&#160;'' else emitChar D E (cells ! i)))
                  [0..<length cells]) @
        (if innerSpanOpen (spanState D E d cells) then Latin1 ''</span>'' else []) @
        Latin1 ''<br>'') \<and>
    (\<forall>c. rendition c AND RE_EXTENDED_CHAR D = 0 \<longrightarrow>
       emitChar D E c =
         (if (ucast (character c) :: 16 word) = of_char CHR ''<'' then Latin1 ''&lt;''
          else if (ucast (character c) :: 16 word) = of_char CHR ''>'' then Latin1 ''&gt;''
          else if (ucast (character c) :: 16 word) = of_char CHR ''&'' then Latin1 ''&amp;''
          else [ucast (character c)]))"
proof -
  obtain sc' where f: "foldl (\<lambda>st c. decodeChar D E c st) ([], 0, d) cells =
      (concat (map2 (@) (spanMarkups D E d cells) (cellTexts D E False cells)),
       sc', spanState D E d cells)"
    using decodeChar_foldl [of 0 D E "[]" d cells] by auto
  have m: "map (\<lambda>i. spanMarkups D E d cells ! i @ cellTexts D E False cells ! i) [0..<length cells]
      = map (\<lambda>i. spanMarkups D E d cells ! i @
                      (if isSpace D (cells ! i) \<and> 0 < i \<and> isSpace D (cells ! (i - 1))
                       then Latin1 ''&#160;'' else emitChar D E (cells ! i)))
                  [0..<length cells]"
    by (rule map_cong) (auto simp: cellTexts_nth)
  have "concat (map2 (@) (spanMarkups D E d cells) (cellTexts D E False cells)) =
      concat (map (\<lambda>i. spanMarkups D E d cells ! i @ cellTexts D E False cells ! i)
        [0..<length cells])"
    using concat_map2_nth [of "spanMarkups D E d cells" "cellTexts D E False cells"] by simp
  then have t: "concat (map2 (@) (spanMarkups D E d cells) (cellTexts D E False cells)) =
      concat (map (\<lambda>i. spanMarkups D E d cells ! i @
                      (if isSpace D (cells ! i) \<and> 0 < i \<and> isSpace D (cells ! (i - 1))
                       then Latin1 ''&#160;'' else emitChar D E (cells ! i)))
                  [0..<length cells])"
    by (simp only: m)
  have e: "\<forall>c. rendition c AND RE_EXTENDED_CHAR D = 0 \<longrightarrow>
       emitChar D E c =
         (if (ucast (character c) :: 16 word) = of_char CHR ''<'' then Latin1 ''&lt;''
          else if (ucast (character c) :: 16 word) = of_char CHR ''>'' then Latin1 ''&gt;''
          else if (ucast (character c) :: 16 word) = of_char CHR ''&'' then Latin1 ''&amp;''
          else [ucast (character c)])"
    by (simp add: emitChar_def Let_def)
  show ?thesis
    using assms e unfolding decodeLine_def f t [symmetric]
    by (simp add: Let_def closeSpan_def)
qed

theorem decodeLine_text_witness:
  "m_output exampleDecoder = Some [] \<and>
   rendition (exampleCell 60) AND RE_EXTENDED_CHAR exampleDecls = 0 \<and>
   emitChar exampleDecls exampleEnv (exampleCell 60) = Latin1 ''&lt;'' \<and>
   (\<exists>d'. decodeLine exampleDecls exampleEnv exampleRow exampleDecoder = Some d' \<and>
      m_output d' =
        Some (Latin1 (''<span style='' @ [CHR 0x22, CHR 0x22]
                @ ''>a&lt; &#160;&#160;&amp;&gt;</span><br>'')))"
proof -
  have o: "m_output exampleDecoder = Some []"
    by (simp add: exampleDecoder_def)
  have r: "rendition (exampleCell 60) AND RE_EXTENDED_CHAR exampleDecls = 0"
    by (simp add: exampleCell_def exampleDecls_def)
  have ev: "map_option m_output (decodeLine exampleDecls exampleEnv exampleRow exampleDecoder) =
      Some (Some (Latin1 (''<span style='' @ [CHR 0x22, CHR 0x22]
                @ ''>a&lt; &#160;&#160;&amp;&gt;</span><br>'')))"
    by code_simp
  have lt: "(ucast (character (exampleCell 60)) :: 16 word) = of_char CHR ''<''"
    by code_simp
  from decodeLine_text [OF o, of exampleDecls exampleEnv exampleRow]
  obtain d' where d': "decodeLine exampleDecls exampleEnv exampleRow exampleDecoder = Some d'"
    and em: "\<forall>c. rendition c AND RE_EXTENDED_CHAR exampleDecls = 0 \<longrightarrow>
       emitChar exampleDecls exampleEnv c =
         (if (ucast (character c) :: 16 word) = of_char CHR ''<'' then Latin1 ''&lt;''
          else if (ucast (character c) :: 16 word) = of_char CHR ''>'' then Latin1 ''&gt;''
          else if (ucast (character c) :: 16 word) = of_char CHR ''&'' then Latin1 ''&amp;''
          else [ucast (character c)])"
    by blast
  have "emitChar exampleDecls exampleEnv (exampleCell 60) = Latin1 ''&lt;''"
    using em r lt by simp
  then show ?thesis
    using o r d' ev by auto
qed

text \<open>
  Claim C9 at a row that holds an extended cell: the cell of \<open><\<close> merged with the
  combining mark \<open>U+0338\<close>. The code points of the cell are appended as they are, so the
  emitted text holds the unit \<open>60\<close> (the character \<open><\<close>) of the cell unescaped, whereas
  the cell of a plain \<open><\<close> is emitted as \<open>&lt;\<close>.
\<close>

theorem decodeLine_extended_unescaped:
  "map_option m_output (decodeLine exampleDecls clusterEnv [clusterCell] exampleDecoder) =
     Some (Some (Latin1 (''<span style='' @ [CHR 0x22, CHR 0x22] @ ''>'') @ [60, 824]
                   @ Latin1 ''</span><br>'')) \<and>
   map_option m_output (decodeLine exampleDecls clusterEnv [exampleCell 60] exampleDecoder) =
     Some (Some (Latin1 (''<span style='' @ [CHR 0x22, CHR 0x22] @ ''>&lt;</span><br>'')))"
  by code_simp

end
